theory Spec2Isabelle
  imports Main
begin

section \<open>JavaScript strings\<close>

text \<open>
  A JavaScript string is a sequence of UTF-16 code units; \<open>length\<close> counts code units.
  A code unit is modelled as a natural number, a literal of the source as \<open>js ''...''\<close>.
\<close>

type_synonym jstring = "nat list"

definition js :: "string \<Rightarrow> jstring" where
  "js s = map of_char s"

section \<open>Browser, REST log and the two auth facades\<close>

text \<open>
  One record holds what the session code reads and writes: the browser's
  \<open>localStorage\<close>, the router's location, the REST requests issued so far, the pending
  \<open>setTimeout\<close> of the legacy facade (delay and the message its callback sets), the state of
  the legacy facade (\<open>AuthProvider\<close>: user, loading, error), the session held inside the
  platform client, and the state of the platform facade (\<open>SupabaseAuthProvider\<close>: user,
  session, loading, error). The field names of the two facades follow the names the route
  guard gives them when it destructures the two contexts.
\<close>

datatype http_method = GET | POST

type_synonym request = "http_method \<times> jstring"

record platform_user =
  uid :: jstring
  uemail :: jstring

record session =
  access_token :: jstring
  session_user :: platform_user

record world =
  localStorage :: "jstring \<rightharpoonup> jstring"
  location :: jstring
  requests :: "request list"
  timer :: "(nat \<times> jstring) option"
  legacyUser :: "jstring option"
  legacyLoading :: bool
  legacyError :: "jstring option"
  clientSession :: "session option"
  supabaseUser :: "platform_user option"
  supabaseSession :: "session option"
  supabaseLoading :: bool
  supabaseError :: "jstring option"

section \<open>Route guard\<close>

text \<open>
  \<open>ProtectedRoute\<close> of the router: a spinner while either facade is loading, a redirect to
  \<open>/login\<close> when the platform facade has no user, the protected outlet otherwise. The legacy
  user is read and never tested.
\<close>

datatype rendered = Spinner | Navigate jstring | Outlet

definition ProtectedRoute :: "world \<Rightarrow> rendered" where
  "ProtectedRoute w =
     (if legacyLoading w \<or> supabaseLoading w then Spinner
      else if supabaseUser w = None then Navigate (js ''/login'')
      else Outlet)"

section \<open>REST client\<close>

text \<open>
  The body of a response, as \<open>response.json()\<close> parses it. Numbers are kept to the
  integers; an object is the list of its members in the order of the text, and a member
  that comes later hides an earlier one of the same name.
\<close>

datatype json =
    JNull
  | JBool bool
  | JNum int
  | JStr jstring
  | JArr "json list"
  | JObj "(jstring \<times> json) list"

text \<open>
  What the client can throw. \<open>ApiError status message\<close> is the class of the REST client;
  its second component is the value handed to the constructor, \<open>None\<close> for
  \<open>undefined\<close> (the \<open>Error\<close> constructor then leaves the message empty).
  \<open>JsError\<close> is a plain \<open>Error\<close> with its message.
\<close>

datatype thrown =
    ApiError nat "json option"
  | TypeError
  | SyntaxError
  | JsError jstring

text \<open>
  A response is its HTTP status and its body; the body is \<open>None\<close> when
  \<open>response.json()\<close> rejects, that is, when the text is not JSON. \<open>fetch\<close> itself
  either answers or rejects (with a \<open>TypeError\<close>).
\<close>

record response =
  status :: nat
  body :: "json option"

datatype fetch_result = Responded response | FetchRejected

definition response_ok :: "response \<Rightarrow> bool" where
  "response_ok r = (200 \<le> status r \<and> status r \<le> 299)"

text \<open>
  \<open>handleResponse\<close>: for a response that is not ok, \<open>error\<close> is the parsed body, or
  the fallback object when parsing rejects; then \<open>error.message\<close> is read and an
  \<open>ApiError\<close> is thrown with it. Reading a property of \<open>null\<close> throws a
  \<open>TypeError\<close>; on an object it gives the member or \<open>undefined\<close>; on any other value
  it gives \<open>undefined\<close>.
\<close>

definition handleResponse :: "response \<Rightarrow> thrown + json" where
  "handleResponse r =
     (if \<not> response_ok r then
        (let error = (case body r of
                        None \<Rightarrow> JObj [(js ''message'',
                                  JStr (if status r = 401 then js ''Invalid credentials''
                                        else js ''An error occurred''))]
                      | Some j \<Rightarrow> j)
         in case error of
              JNull \<Rightarrow> Inl TypeError
            | JObj members \<Rightarrow> Inl (ApiError (status r) (map_of (rev members) (js ''message'')))
            | _ \<Rightarrow> Inl (ApiError (status r) None))
      else (case body r of None \<Rightarrow> Inl SyntaxError | Some j \<Rightarrow> Inr j))"

definition api_request ::
  "http_method \<Rightarrow> jstring \<Rightarrow> fetch_result \<Rightarrow> world \<Rightarrow> (thrown + json) \<times> world" where
  "api_request m endpoint fr w =
     ((case fr of FetchRejected \<Rightarrow> Inl TypeError | Responded r \<Rightarrow> handleResponse r),
      w\<lparr>requests := requests w @ [(m, endpoint)]\<rparr>)"

definition api_get :: "jstring \<Rightarrow> fetch_result \<Rightarrow> world \<Rightarrow> (thrown + json) \<times> world" where
  "api_get = api_request GET"

definition api_post :: "jstring \<Rightarrow> fetch_result \<Rightarrow> world \<Rightarrow> (thrown + json) \<times> world" where
  "api_post = api_request POST"

section \<open>Numbers as text\<close>

text \<open>
  \<open>Date.now()\<close> is an integer number of milliseconds (always within the range where a
  JavaScript number is exact); \<open>toString()\<close> writes it in decimal. \<open>parseInt\<close> with no
  radix skips leading white space, reads a sign, switches to radix 16 after \<open>0x\<close> or
  \<open>0X\<close>, and reads the longest run of digits; with no digit the result is \<open>NaN\<close>,
  here \<open>None\<close>. Every comparison with \<open>NaN\<close> is false.
\<close>

definition is_js_space :: "nat \<Rightarrow> bool" where
  "is_js_space c = (c \<in> set [9, 10, 11, 12, 13, 32, 160, 5760, 8192, 8193, 8194, 8195, 8196,
                             8197, 8198, 8199, 8200, 8201, 8202, 8232, 8233, 8239, 8287,
                             12288, 65279])"

fun show_nat :: "nat \<Rightarrow> jstring" where
  "show_nat n = (if n < 10 then [48 + n] else show_nat (n div 10) @ [48 + n mod 10])"

declare show_nat.simps [simp del]

definition show_int :: "int \<Rightarrow> jstring" where
  "show_int i = (if i < 0 then 45 # show_nat (nat (- i)) else show_nat (nat i))"

definition digit_value :: "nat \<Rightarrow> nat" where
  "digit_value c =
     (if 48 \<le> c \<and> c \<le> 57 then c - 48
      else if 97 \<le> c \<and> c \<le> 122 then c - 87
      else if 65 \<le> c \<and> c \<le> 90 then c - 55
      else 36)"

definition is_digit :: "nat \<Rightarrow> nat \<Rightarrow> bool" where
  "is_digit radix c = (digit_value c < radix)"

definition digits_value :: "nat \<Rightarrow> jstring \<Rightarrow> nat" where
  "digits_value radix z = foldl (\<lambda>acc c. acc * radix + digit_value c) 0 z"

definition parseInt :: "jstring \<Rightarrow> int option" where
  "parseInt s =
     (let s1 = dropWhile is_js_space s;
          negative = (case s1 of [] \<Rightarrow> False | c # _ \<Rightarrow> c = 45);
          s2 = (case s1 of [] \<Rightarrow> [] | c # rest \<Rightarrow> if c = 45 \<or> c = 43 then rest else s1);
          hex = (case s2 of a # b # _ \<Rightarrow> a = 48 \<and> (b = 120 \<or> b = 88) | _ \<Rightarrow> False);
          radix = (if hex then 16 else 10);
          s3 = (if hex then drop 2 s2 else s2);
          z = takeWhile (is_digit radix) s3
      in if z = [] then None
         else Some ((if negative then - 1 else 1) * int (digits_value radix z)))"

section \<open>Auth service: resending the verification e-mail\<close>

text \<open>
  \<open>authService.resendVerification\<close>. The two readings of the clock are parameters:
  \<open>now1\<close> when the cooldown is checked, \<open>now2\<close> when the attempt is stored. A stored
  value that is empty is falsy and skips the check.
\<close>

definition verification_key :: "jstring \<Rightarrow> jstring" where
  "verification_key email = js ''verification_'' @ email"

definition authService_resendVerification ::
  "int \<Rightarrow> int \<Rightarrow> fetch_result \<Rightarrow> jstring \<Rightarrow> world \<Rightarrow> (thrown + unit) \<times> world" where
  "authService_resendVerification now1 now2 fr email w =
     (let lastAttempt = localStorage w (verification_key email);
          cooldownPeriod = 60000
      in if (case lastAttempt of
               None \<Rightarrow> False
             | Some s \<Rightarrow> s \<noteq> [] \<and>
                 (case parseInt s of
                    None \<Rightarrow> False
                  | Some t \<Rightarrow> now1 - t < cooldownPeriod))
         then (Inl (JsError
                 (js ''Please wait a minute before requesting another verification email.'')), w)
         else (case api_post (js ''send-Verify-email'') fr w of
                 (Inl e, w') \<Rightarrow> (Inl e, w')
               | (Inr _, w') \<Rightarrow>
                   (Inr (),
                    w'\<lparr>localStorage := (localStorage w')(verification_key email \<mapsto> show_int now2)\<rparr>)))"

section \<open>Client-side validation\<close>

text \<open>
  \<open>String.prototype.trim\<close> removes white space and line terminators at both ends.
  The e-mail test of \<open>register\<close> is the regular expression
  \<^verbatim>\<open>/^[^\s@]+@[^\s@]+\.[^\s@]+$/\<close>: it is written here as a list of items, each one
  character class taken once or one or more times, and matched against the whole string
  with backtracking.
\<close>

definition trim :: "jstring \<Rightarrow> jstring" where
  "trim s = rev (dropWhile is_js_space (rev (dropWhile is_js_space s)))"

datatype char_class = NotSpaceNorAt | Literal nat

fun in_class :: "char_class \<Rightarrow> nat \<Rightarrow> bool" where
  "in_class NotSpaceNorAt c = (\<not> is_js_space c \<and> c \<noteq> 64)"
| "in_class (Literal l) c = (c = l)"

datatype item = Once char_class | OneOrMore char_class

fun matches :: "item list \<Rightarrow> jstring \<Rightarrow> bool" where
  "matches [] s = (s = [])"
| "matches (Once k # p) [] = False"
| "matches (Once k # p) (c # s) = (in_class k c \<and> matches p s)"
| "matches (OneOrMore k # p) [] = False"
| "matches (OneOrMore k # p) (c # s) =
     (in_class k c \<and> (matches (OneOrMore k # p) s \<or> matches p s))"

definition email_pattern :: "item list" where
  "email_pattern =
     [OneOrMore NotSpaceNorAt, Once (Literal 64), OneOrMore NotSpaceNorAt,
      Once (Literal 46), OneOrMore NotSpaceNorAt]"

section \<open>Asynchronous operations\<close>

text \<open>
  An asynchronous operation of a facade runs in two parts. The first part runs when the
  operation is called and ends either with the operation finished (a validation failed) or
  at its \<open>await\<close>, with the request in flight. The second part, named \<open>_settled\<close>, runs
  when the awaited call settles. What the legacy facade awaits either resolves with a
  reply or rejects; a rejection carries the message of the \<open>Error\<close> thrown, or nothing
  when the value thrown is not an \<open>Error\<close>. Of a reply, the code reads the token and the
  user of a login response, and the user of a profile response; the user is kept as the
  JSON text that \<open>JSON.stringify\<close> gives. One operation is followed at a time, so
  one timer at most is pending.
\<close>

datatype 'w step = Finished 'w | Awaiting 'w

record reply =
  reply_token :: jstring
  reply_user :: jstring

datatype settled = Resolved reply | Rejected "jstring option"

definition TIMEOUT_DURATION :: nat where
  "TIMEOUT_DURATION = 15000"

definition setTimeout :: "jstring \<Rightarrow> world \<Rightarrow> world" where
  "setTimeout msg w = w\<lparr>timer := Some (TIMEOUT_DURATION, msg)\<rparr>"

definition clearTimeout :: "world \<Rightarrow> world" where
  "clearTimeout w = w\<lparr>timer := None\<rparr>"

text \<open>
  Every timeout callback of the legacy facade is
  \<^verbatim>\<open>() => { setLoading(false); setError(message); }\<close>; it runs only if the timer is
  still armed.
\<close>

definition timer_fires :: "world \<Rightarrow> world" where
  "timer_fires w =
     (case timer w of
        None \<Rightarrow> w
      | Some (d, msg) \<Rightarrow> w\<lparr>legacyLoading := False, legacyError := Some msg, timer := None\<rparr>)"

definition send :: "http_method \<Rightarrow> jstring \<Rightarrow> world \<Rightarrow> world" where
  "send m endpoint w = w\<lparr>requests := requests w @ [(m, endpoint)]\<rparr>"

text \<open>
  The state seen \<open>t\<close> milliseconds after the call, when the awaited call settles after
  \<open>latency\<close> milliseconds (\<open>None\<close>: it never does) and \<open>settle\<close> is the second part of
  the operation. The armed timer fires at its delay unless the call settled earlier; a
  call that settles at the very instant of the timer is taken after it.
\<close>

definition observe :: "(world \<Rightarrow> world) \<Rightarrow> nat option \<Rightarrow> nat \<Rightarrow> world step \<Rightarrow> world" where
  "observe settle latency t s =
     (case s of
        Finished w \<Rightarrow> w
      | Awaiting w \<Rightarrow>
          (case timer w of
             None \<Rightarrow>
               (case latency of
                  None \<Rightarrow> w
                | Some l \<Rightarrow> if t < l then w else settle w)
           | Some (d, msg) \<Rightarrow>
               (case latency of
                  None \<Rightarrow> if t < d then w else timer_fires w
                | Some l \<Rightarrow>
                    if l < d then (if t < l then w else settle w)
                    else if t < d then w
                    else if t < l then timer_fires w
                    else settle (timer_fires w))))"

section \<open>Legacy facade\<close>

record RegisterCredentials =
  email :: jstring
  password :: jstring
  name :: jstring

record LoginCredentials =
  login_email :: jstring
  login_password :: jstring

definition register :: "RegisterCredentials \<Rightarrow> world \<Rightarrow> world step" where
  "register credentials w =
     (let w1 = w\<lparr>legacyLoading := True, legacyError := None\<rparr>
      in if \<not> matches email_pattern (email credentials) then
           Finished (w1\<lparr>legacyError := Some (js ''Please enter a valid email address''),
                        legacyLoading := False\<rparr>)
         else if length (password credentials) < 8 then
           Finished (w1\<lparr>legacyError := Some (js ''Password must be at least 8 characters long''),
                        legacyLoading := False\<rparr>)
         else if trim (name credentials) = [] then
           Finished (w1\<lparr>legacyError := Some (js ''Name is required''),
                        legacyLoading := False\<rparr>)
         else
           Awaiting (send POST (js ''register'')
             (setTimeout (js ''Registration request timed out. Please try again.'') w1)))"

definition register_settled :: "settled \<Rightarrow> world \<Rightarrow> world" where
  "register_settled r w =
     (case r of
        Resolved _ \<Rightarrow>
          (clearTimeout w)\<lparr>legacyLoading := False,
            legacyError := Some (js
              ''Registration successful! Please check your email to verify your account.'')\<rparr>
      | Rejected err \<Rightarrow>
          (clearTimeout w)\<lparr>legacyError :=
              Some (case err of Some m \<Rightarrow> m
                    | None \<Rightarrow> js ''Registration failed. Please try again.''),
            legacyLoading := False\<rparr>)"

definition login :: "LoginCredentials \<Rightarrow> world \<Rightarrow> world step" where
  "login credentials w =
     (let w1 = w\<lparr>legacyLoading := True, legacyError := None\<rparr>
      in if trim (login_email credentials) = [] \<or> trim (login_password credentials) = [] then
           Finished (w1\<lparr>legacyError := Some (js ''Email and password are required''),
                        legacyLoading := False\<rparr>)
         else
           Awaiting (send POST (js ''login'')
             (setTimeout (js ''Login request timed out. Please try again.'') w1)))"

definition login_settled :: "settled \<Rightarrow> world \<Rightarrow> world" where
  "login_settled r w =
     (case r of
        Resolved response \<Rightarrow>
          (let w1 = clearTimeout w;
               w2 = w1\<lparr>localStorage :=
                      ((localStorage w1)(js ''token'' \<mapsto> reply_token response))
                        (js ''user'' \<mapsto> reply_user response)\<rparr>;
               w3 = w2\<lparr>legacyUser := Some (reply_user response), legacyError := Some [],
                      location := js ''/''\<rparr>
           in w3\<lparr>legacyLoading := False\<rparr>)
      | Rejected err \<Rightarrow>
          (clearTimeout w)\<lparr>legacyError :=
              Some (case err of Some m \<Rightarrow> m | None \<Rightarrow> js ''Login failed. Please try again.''),
            legacyLoading := False\<rparr>)"

text \<open>
  The facade's \<open>resendVerification\<close> (the service's function of the same name is
  \<open>authService_resendVerification\<close> above).
\<close>

definition resendVerification :: "world \<Rightarrow> world step" where
  "resendVerification w =
     Awaiting (send POST (js ''send-Verify-email'')
       (setTimeout (js ''Request timed out. Please try again.'')
         (w\<lparr>legacyLoading := True, legacyError := None\<rparr>)))"

definition resendVerification_settled :: "settled \<Rightarrow> world \<Rightarrow> world" where
  "resendVerification_settled r w =
     (case r of
        Resolved _ \<Rightarrow>
          (clearTimeout w)\<lparr>legacyLoading := False,
            legacyError := Some (js
              ''Verification email has been resent. Please check your inbox.'')\<rparr>
      | Rejected err \<Rightarrow>
          (clearTimeout w)\<lparr>legacyError :=
              Some (case err of Some m \<Rightarrow> m
                    | None \<Rightarrow> js ''Failed to resend verification email. Please try again.''),
            legacyLoading := False\<rparr>)"

text \<open>
  Eight operations of the facade are written out with the same statements and differ in
  the endpoint and in the message set on failure: arm the timer, await the request; on
  success clear the timer and the loading flag; on failure clear the timer, set the
  message, clear the loading flag. \<open>getNotificationSettings\<close> also returns the reply and
  rethrows the failure to its caller, which the state does not show.
\<close>

definition plain_request :: "http_method \<Rightarrow> jstring \<Rightarrow> world \<Rightarrow> world step" where
  "plain_request m endpoint w =
     Awaiting (send m endpoint
       (setTimeout (js ''Request timed out. Please try again.'')
         (w\<lparr>legacyLoading := True, legacyError := None\<rparr>)))"

definition plain_settled :: "jstring \<Rightarrow> settled \<Rightarrow> world \<Rightarrow> world" where
  "plain_settled failure r w =
     (case r of
        Resolved _ \<Rightarrow> (clearTimeout w)\<lparr>legacyLoading := False\<rparr>
      | Rejected _ \<Rightarrow> (clearTimeout w)\<lparr>legacyError := Some failure, legacyLoading := False\<rparr>)"

definition forgotPassword :: "world \<Rightarrow> world step" where
  "forgotPassword = plain_request POST (js ''forgot-password'')"

definition forgotPassword_settled :: "settled \<Rightarrow> world \<Rightarrow> world" where
  "forgotPassword_settled =
     plain_settled (js ''Failed to send password reset email. Please try again.'')"

definition verifyForgotPassword :: "world \<Rightarrow> world step" where
  "verifyForgotPassword = plain_request POST (js ''forgot-password-verify'')"

definition verifyForgotPassword_settled :: "settled \<Rightarrow> world \<Rightarrow> world" where
  "verifyForgotPassword_settled =
     plain_settled (js ''Password reset verification failed. Please try again.'')"

definition resetPassword :: "world \<Rightarrow> world step" where
  "resetPassword = plain_request POST (js ''reset-password'')"

definition resetPassword_settled :: "settled \<Rightarrow> world \<Rightarrow> world" where
  "resetPassword_settled = plain_settled (js ''Password reset failed. Please try again.'')"

definition verifyTwoFactor :: "world \<Rightarrow> world step" where
  "verifyTwoFactor = plain_request POST (js ''two-factor-verify-code'')"

definition verifyTwoFactor_settled :: "settled \<Rightarrow> world \<Rightarrow> world" where
  "verifyTwoFactor_settled =
     plain_settled (js ''Two-factor verification failed. Please try again.'')"

definition sendTwoFactorCode :: "world \<Rightarrow> world step" where
  "sendTwoFactorCode = plain_request POST (js ''send-2facode'')"

definition sendTwoFactorCode_settled :: "settled \<Rightarrow> world \<Rightarrow> world" where
  "sendTwoFactorCode_settled =
     plain_settled (js ''Failed to send verification code. Please try again.'')"

definition updatePassword :: "world \<Rightarrow> world step" where
  "updatePassword = plain_request POST (js ''update-password'')"

definition updatePassword_settled :: "settled \<Rightarrow> world \<Rightarrow> world" where
  "updatePassword_settled = plain_settled (js ''Failed to update password. Please try again.'')"

definition getNotificationSettings :: "world \<Rightarrow> world step" where
  "getNotificationSettings = plain_request GET (js ''user-notification-settings'')"

definition getNotificationSettings_settled :: "settled \<Rightarrow> world \<Rightarrow> world" where
  "getNotificationSettings_settled =
     plain_settled (js ''Failed to get notification settings. Please try again.'')"

definition updateNotificationSettings :: "world \<Rightarrow> world step" where
  "updateNotificationSettings = plain_request POST (js ''user-notification-settings'')"

definition updateNotificationSettings_settled :: "settled \<Rightarrow> world \<Rightarrow> world" where
  "updateNotificationSettings_settled =
     plain_settled (js ''Failed to update notification settings. Please try again.'')"

definition updateProfile :: "world \<Rightarrow> world step" where
  "updateProfile = plain_request POST (js ''profile'')"

definition updateProfile_settled :: "settled \<Rightarrow> world \<Rightarrow> world" where
  "updateProfile_settled r w =
     (case r of
        Resolved updatedUser \<Rightarrow>
          (let w1 = (clearTimeout w)\<lparr>legacyUser := Some (reply_user updatedUser)\<rparr>;
               w2 = w1\<lparr>localStorage := (localStorage w1)(js ''user'' \<mapsto> reply_user updatedUser)\<rparr>
           in w2\<lparr>legacyLoading := False\<rparr>)
      | Rejected _ \<Rightarrow>
          (clearTimeout w)\<lparr>legacyError := Some (js ''Failed to update profile. Please try again.''),
            legacyLoading := False\<rparr>)"

text \<open>
  \<open>logout\<close> of the legacy facade is synchronous: the logout request is sent and not
  awaited, so nothing in the \<open>try\<close> block can throw and the \<open>catch\<close> is never entered.
  No timer is armed. The platform session is not touched.
\<close>

definition logout :: "world \<Rightarrow> world" where
  "logout w =
     (let w1 = w\<lparr>legacyLoading := True, legacyError := None\<rparr>;
          w2 = send GET (js ''logout'') w1;
          w3 = w2\<lparr>localStorage := ((localStorage w2)(js ''token'' := None))(js ''user'' := None)\<rparr>
      in w3\<lparr>legacyUser := None, legacyLoading := False, location := js ''/login''\<rparr>)"

text \<open>The awaited operations of the legacy facade, to speak of all of them at once.\<close>

datatype legacy_call =
    Register RegisterCredentials
  | Login LoginCredentials
  | ResendVerification
  | ForgotPassword
  | VerifyForgotPassword
  | ResetPassword
  | VerifyTwoFactor
  | SendTwoFactorCode
  | UpdateProfile
  | UpdatePassword
  | GetNotificationSettings
  | UpdateNotificationSettings

fun call :: "legacy_call \<Rightarrow> world \<Rightarrow> world step" where
  "call (Register c) = register c"
| "call (Login c) = login c"
| "call ResendVerification = resendVerification"
| "call ForgotPassword = forgotPassword"
| "call VerifyForgotPassword = verifyForgotPassword"
| "call ResetPassword = resetPassword"
| "call VerifyTwoFactor = verifyTwoFactor"
| "call SendTwoFactorCode = sendTwoFactorCode"
| "call UpdateProfile = updateProfile"
| "call UpdatePassword = updatePassword"
| "call GetNotificationSettings = getNotificationSettings"
| "call UpdateNotificationSettings = updateNotificationSettings"

fun call_settled :: "legacy_call \<Rightarrow> settled \<Rightarrow> world \<Rightarrow> world" where
  "call_settled (Register c) = register_settled"
| "call_settled (Login c) = login_settled"
| "call_settled ResendVerification = resendVerification_settled"
| "call_settled ForgotPassword = forgotPassword_settled"
| "call_settled VerifyForgotPassword = verifyForgotPassword_settled"
| "call_settled ResetPassword = resetPassword_settled"
| "call_settled VerifyTwoFactor = verifyTwoFactor_settled"
| "call_settled SendTwoFactorCode = sendTwoFactorCode_settled"
| "call_settled UpdateProfile = updateProfile_settled"
| "call_settled UpdatePassword = updatePassword_settled"
| "call_settled GetNotificationSettings = getNotificationSettings_settled"
| "call_settled UpdateNotificationSettings = updateNotificationSettings_settled"

text \<open>The message each operation hands to its timeout callback.\<close>

fun timeout_message :: "legacy_call \<Rightarrow> jstring" where
  "timeout_message (Register c) = js ''Registration request timed out. Please try again.''"
| "timeout_message (Login c) = js ''Login request timed out. Please try again.''"
| "timeout_message _ = js ''Request timed out. Please try again.''"

section \<open>Platform facade\<close>

text \<open>
  A call of the platform client resolves with data, resolves with an error object, or
  throws. When the client's session changes, the client runs the callback that the
  facade subscribed when it was initialised; the callback stores the session and its user
  in the facade.
\<close>

datatype 'a auth_result = AuthData 'a | AuthError jstring | AuthThrew jstring

definition onAuthStateChange :: "session option \<Rightarrow> world \<Rightarrow> world" where
  "onAuthStateChange s w =
     w\<lparr>supabaseSession := s, supabaseUser := map_option session_user s\<rparr>"

definition client_session_changed :: "session option \<Rightarrow> world \<Rightarrow> world" where
  "client_session_changed s w = onAuthStateChange s (w\<lparr>clientSession := s\<rparr>)"

definition signUp :: "world \<Rightarrow> world step" where
  "signUp w = Awaiting (w\<lparr>supabaseLoading := True, supabaseError := None\<rparr>)"

definition signUp_settled :: "platform_user option auth_result \<Rightarrow> world \<Rightarrow> world" where
  "signUp_settled r w =
     (case r of
        AuthData _ \<Rightarrow> w\<lparr>supabaseLoading := False\<rparr>
      | AuthError m \<Rightarrow> w\<lparr>supabaseError := Some m, supabaseLoading := False\<rparr>
      | AuthThrew m \<Rightarrow> w\<lparr>supabaseError := Some m, supabaseLoading := False\<rparr>)"

definition signIn :: "world \<Rightarrow> world step" where
  "signIn w = Awaiting (w\<lparr>supabaseLoading := True, supabaseError := None\<rparr>)"

definition signIn_settled :: "session option auth_result \<Rightarrow> world \<Rightarrow> world" where
  "signIn_settled r w =
     (case r of
        AuthData None \<Rightarrow> w\<lparr>supabaseLoading := False\<rparr>
      | AuthData (Some s) \<Rightarrow>
          (let w1 = client_session_changed (Some s) w;
               w2 = w1\<lparr>localStorage :=
                      (localStorage w1)(js ''supabase_auth_token'' \<mapsto> access_token s)\<rparr>
           in w2\<lparr>location := js ''/'', supabaseLoading := False\<rparr>)
      | AuthError m \<Rightarrow> w\<lparr>supabaseError := Some m, supabaseLoading := False\<rparr>
      | AuthThrew m \<Rightarrow> w\<lparr>supabaseError := Some m, supabaseLoading := False\<rparr>)"

text \<open>
  \<open>signOut\<close>: the client's sign-out either clears the client's session (and notifies the
  facade), or resolves with an error and keeps the session, or throws. The facade does not
  look at what the call resolves with.
\<close>

definition signOut_settled :: "unit auth_result \<Rightarrow> world \<Rightarrow> world" where
  "signOut_settled r w =
     (case r of
        AuthThrew m \<Rightarrow> w\<lparr>supabaseError := Some m, supabaseLoading := False\<rparr>
      | _ \<Rightarrow>
          (let w1 = (case r of AuthData _ \<Rightarrow> client_session_changed None w | _ \<Rightarrow> w);
               w2 = w1\<lparr>localStorage :=
                      ((localStorage w1)(js ''token'' := None))(js ''user'' := None)\<rparr>
           in w2\<lparr>location := js ''/login'', supabaseLoading := False\<rparr>))"

definition signOut_called :: "world \<Rightarrow> world step" where
  "signOut_called w = Awaiting (w\<lparr>supabaseLoading := True\<rparr>)"

text \<open>\<open>signOut\<close> from its call to its end, for a sign-out that settles.\<close>

definition signOut :: "unit auth_result \<Rightarrow> world \<Rightarrow> world" where
  "signOut r w = signOut_settled r (w\<lparr>supabaseLoading := True\<rparr>)"

section \<open>Logging out\<close>

text \<open>
  \<open>handleLogout\<close> of the sidebar calls the legacy \<open>logout\<close>, then the platform
  \<open>signOut\<close>, then navigates to the login screen; neither call throws.
  \<open>authService.logout\<close> awaits the REST logout and removes the two keys only when it
  succeeds.
\<close>

definition handleLogout :: "unit auth_result \<Rightarrow> world \<Rightarrow> world" where
  "handleLogout r w = (signOut r (logout w))\<lparr>location := js ''/login''\<rparr>"

definition authService_logout :: "fetch_result \<Rightarrow> world \<Rightarrow> (thrown + unit) \<times> world" where
  "authService_logout fr w =
     (case api_get (js ''logout'') fr w of
        (Inl e, w') \<Rightarrow> (Inl e, w')
      | (Inr _, w') \<Rightarrow>
          (Inr (),
           w'\<lparr>localStorage := ((localStorage w')(js ''token'' := None))(js ''user'' := None)\<rparr>))"

section \<open>Consent page\<close>

text \<open>
  A provider as the consent page lists it, with the three permission flags. A permission
  key is one of the three names of \<open>keyof Provider['permissions']\<close>.
  \<open>Object.values(p).some(Boolean)\<close> is \<open>some_true (Object_values p)\<close>.
\<close>

record permissions =
  labResults :: bool
  medications :: bool
  fitnessData :: bool

datatype permission_key = LabResults | Medications | FitnessData

fun get_permission :: "permissions \<Rightarrow> permission_key \<Rightarrow> bool" where
  "get_permission p LabResults = labResults p"
| "get_permission p Medications = medications p"
| "get_permission p FitnessData = fitnessData p"

fun set_permission :: "permissions \<Rightarrow> permission_key \<Rightarrow> bool \<Rightarrow> permissions" where
  "set_permission p LabResults v = p\<lparr>labResults := v\<rparr>"
| "set_permission p Medications v = p\<lparr>medications := v\<rparr>"
| "set_permission p FitnessData v = p\<lparr>fitnessData := v\<rparr>"

definition Object_values :: "permissions \<Rightarrow> bool list" where
  "Object_values p = [labResults p, medications p, fitnessData p]"

definition some_true :: "bool list \<Rightarrow> bool" where
  "some_true bs = list_ex (\<lambda>b. b) bs"

datatype access_status = Granted | Disconnected

record provider =
  ident :: jstring
  provider_name :: jstring
  logo :: jstring
  dateAdded :: jstring
  accessStatus :: access_status
  permissions :: permissions

text \<open>
  A row of the table \<open>user_provider_consents\<close>, without its key \<open>(user_id, provider_id)\<close>
  and without \<open>created_at\<close>, which the page never writes. The object \<open>dbPermissions\<close>
  that the page writes has the same five columns.
\<close>

record consent_row =
  lab_results :: bool
  medications_column :: bool
  fitness_data :: bool
  approved :: bool
  updated_at :: jstring

text \<open>
  What the page does to the outside, in order: the reads and writes it sends to the
  platform table (a write is listed with the object written, whether or not the platform
  accepts it), the errors it logs to the console, the alerts it shows, and the requests it
  would send through the REST client.
\<close>

datatype effect =
    Select jstring jstring
  | Update jstring jstring consent_row
  | Insert jstring jstring consent_row
  | ConsoleError
  | Alert jstring
  | Rest http_method jstring

text \<open>
  The platform during one handler run: the signed-in user that \<open>getUser\<close> returns, whether
  the read and the write come back with an error, and the time \<open>new Date().toISOString()\<close>
  gives.
\<close>

record platform_env =
  authUser :: "jstring option"
  queryError :: bool
  writeError :: bool
  now :: jstring

text \<open>
  The page (\<open>Consent\<close>) with the table it writes to, and the state of the modal
  (\<open>ProviderAccessModal\<close>) opened on \<open>modal_provider\<close>.
\<close>

record page =
  providers :: "provider list"
  loading :: bool
  isModalOpen :: bool
  consents :: "jstring \<times> jstring \<rightharpoonup> consent_row"
  trace :: "effect list"
  modal_provider :: provider
  currentPermissions :: permissions
  modal_loading :: bool
  modal_error :: "jstring option"

definition emit :: "effect \<Rightarrow> page \<Rightarrow> page" where
  "emit e pg = pg\<lparr>trace := trace pg @ [e]\<rparr>"

text \<open>
  The read-then-write block, which the three handlers each write out with the same
  statements: select the row of \<open>(user, providerId)\<close>; on a query error throw; update the
  row if there is one, insert it otherwise; on a write error throw. The result is
  \<open>False\<close> when the block threw.
\<close>

definition save_consent ::
  "platform_env \<Rightarrow> jstring \<Rightarrow> jstring \<Rightarrow> consent_row \<Rightarrow> page \<Rightarrow> bool \<times> page" where
  "save_consent env user providerId dbPermissions pg =
     (let pg1 = emit (Select user providerId) pg
      in if queryError env then (False, pg1)
         else
           (case consents pg1 (user, providerId) of
              Some existingConsent \<Rightarrow>
                (let pg2 = emit (Update user providerId dbPermissions) pg1
                 in if writeError env then (False, pg2)
                    else (True, pg2\<lparr>consents := (consents pg2)((user, providerId) \<mapsto> dbPermissions)\<rparr>))
            | None \<Rightarrow>
                (let pg2 = emit (Insert user providerId dbPermissions) pg1
                 in if writeError env then (False, pg2)
                    else (True, pg2\<lparr>consents := (consents pg2)((user, providerId) \<mapsto> dbPermissions)\<rparr>))))"

definition to_dbPermissions :: "permissions \<Rightarrow> bool \<Rightarrow> jstring \<Rightarrow> consent_row" where
  "to_dbPermissions p hasAnyPermissions time =
     \<lparr>lab_results = labResults p, medications_column = medications p,
      fitness_data = fitnessData p, approved = hasAnyPermissions, updated_at = time\<rparr>"

definition setProviders :: "jstring \<Rightarrow> permissions \<Rightarrow> page \<Rightarrow> page" where
  "setProviders providerId newPermissions pg =
     pg\<lparr>providers :=
          map (\<lambda>provider.
                 if ident provider = providerId
                 then provider\<lparr>permissions := newPermissions,
                        accessStatus := (if some_true (Object_values newPermissions)
                                         then Granted else Disconnected)\<rparr>
                 else provider)
              (providers pg)\<rparr>"

text \<open>
  \<open>handlePermissionToggle\<close>: the switch of one flag in the table of the page. The new
  flags are those of the listed provider with the one flag negated.
\<close>

definition handlePermissionToggle ::
  "platform_env \<Rightarrow> jstring \<Rightarrow> permission_key \<Rightarrow> page \<Rightarrow> page" where
  "handlePermissionToggle env providerId permission pg =
     (let pg1 = pg\<lparr>loading := True\<rparr>
      in case find (\<lambda>p. ident p = providerId) (providers pg1) of
           None \<Rightarrow> pg1\<lparr>loading := False\<rparr>
         | Some provider \<Rightarrow>
             (let newPermissions =
                    set_permission (permissions provider) permission
                      (\<not> get_permission (permissions provider) permission);
                  failed = (\<lambda>q. (emit (Alert (js ''Failed to update permission. Please try again.''))
                                   (emit ConsoleError q))\<lparr>loading := False\<rparr>)
              in case authUser env of
                   None \<Rightarrow> failed pg1
                 | Some user \<Rightarrow>
                     (let hasAnyPermissions = some_true (Object_values newPermissions);
                          dbPermissions = to_dbPermissions newPermissions hasAnyPermissions (now env)
                      in case save_consent env user providerId dbPermissions pg1 of
                           (False, pg2) \<Rightarrow> failed pg2
                         | (True, pg2) \<Rightarrow>
                             (setProviders providerId newPermissions pg2)\<lparr>loading := False\<rparr>)))"

text \<open>
  \<open>handleUpdatePermissions\<close>: the page's handler for the modal's save. Its parameter is
  declared as a dictionary of booleans; the modal, its only caller, passes its current
  permissions, an object with exactly the three flags, and that is the type it has here.
\<close>

definition handleUpdatePermissions ::
  "platform_env \<Rightarrow> jstring \<Rightarrow> permissions \<Rightarrow> page \<Rightarrow> page" where
  "handleUpdatePermissions env providerId newPermissions pg =
     (let pg1 = pg\<lparr>loading := True\<rparr>;
          failed = (\<lambda>q. (emit (Alert (js ''Failed to update permissions. Please try again.''))
                           (emit ConsoleError q))\<lparr>loading := False\<rparr>)
      in case authUser env of
           None \<Rightarrow> failed pg1
         | Some user \<Rightarrow>
             (let hasAnyPermissions = some_true (Object_values newPermissions);
                  dbPermissions = to_dbPermissions newPermissions hasAnyPermissions (now env)
              in case save_consent env user providerId dbPermissions pg1 of
                   (False, pg2) \<Rightarrow> failed pg2
                 | (True, pg2) \<Rightarrow>
                     (setProviders providerId newPermissions pg2)
                       \<lparr>isModalOpen := False, loading := False\<rparr>))"

text \<open>
  \<open>handleSaveChanges\<close> of the modal, with the page's \<open>handleUpdatePermissions\<close> as
  \<open>onUpdatePermissions\<close> and the page's \<open>setIsModalOpen(false)\<close> as \<open>onClose\<close>.
  \<open>env1\<close> is the platform during the modal's own write, \<open>env2\<close> during the page
  handler's. When the modal's write throws, the error is logged and the modal goes on to
  call the page handler, as it also does when no user is signed in. The page handler
  catches its own errors, so the modal's outer \<open>catch\<close> is never entered.
\<close>

definition handleSaveChanges :: "platform_env \<Rightarrow> platform_env \<Rightarrow> page \<Rightarrow> page" where
  "handleSaveChanges env1 env2 pg =
     (let pg1 = pg\<lparr>modal_loading := True, modal_error := None\<rparr>;
          provider = modal_provider pg1;
          hasAnyPermissions = some_true (Object_values (currentPermissions pg1));
          finish = (\<lambda>q. (handleUpdatePermissions env2 (ident provider) (currentPermissions q) q)
                           \<lparr>isModalOpen := False, modal_loading := False\<rparr>)
      in case authUser env1 of
           None \<Rightarrow> finish pg1
         | Some user \<Rightarrow>
             (let dbPermissions =
                    to_dbPermissions (currentPermissions pg1) hasAnyPermissions (now env1)
              in case save_consent env1 user (ident provider) dbPermissions pg1 of
                   (True, pg2) \<Rightarrow> finish pg2
                 | (False, pg2) \<Rightarrow> finish (emit ConsoleError pg2)))"

text \<open>The invariant of a consent record, and of a write of one.\<close>

definition approved_matches :: "consent_row \<Rightarrow> bool" where
  "approved_matches r = (approved r = (lab_results r \<or> medications_column r \<or> fitness_data r))"

fun write_ok :: "effect \<Rightarrow> bool" where
  "write_ok (Update u p r) = approved_matches r"
| "write_ok (Insert u p r) = approved_matches r"
| "write_ok _ = True"

fun is_rest :: "effect \<Rightarrow> bool" where
  "is_rest (Rest m e) = True"
| "is_rest _ = False"

text \<open>Sample data for the concrete runs below.\<close>

definition sample_provider :: "bool \<Rightarrow> bool \<Rightarrow> bool \<Rightarrow> provider" where
  "sample_provider l m f =
     \<lparr>ident = js ''p1'', provider_name = js ''Baptist Health'', logo = js ''/elroi-logo.svg'',
      dateAdded = js ''10/20/2024'',
      accessStatus = (if l \<or> m \<or> f then Granted else Disconnected),
      permissions = \<lparr>labResults = l, medications = m, fitnessData = f\<rparr>\<rparr>"

definition sample_page ::
  "provider \<Rightarrow> permissions \<Rightarrow> (jstring \<times> jstring \<rightharpoonup> consent_row) \<Rightarrow> page" where
  "sample_page prov current table =
     \<lparr>providers = [prov], loading = False, isModalOpen = True, consents = table, trace = [],
      modal_provider = prov, currentPermissions = current, modal_loading = False,
      modal_error = None\<rparr>"

definition platform_up :: "jstring \<Rightarrow> platform_env" where
  "platform_up time = \<lparr>authUser = Some (js ''u1''), queryError = False, writeError = False, now = time\<rparr>"

definition platform_rejecting :: "jstring \<Rightarrow> platform_env" where
  "platform_rejecting time =
     \<lparr>authUser = Some (js ''u1''), queryError = False, writeError = True, now = time\<rparr>"

definition sample_world :: world where
  "sample_world =
     \<lparr>localStorage = Map.empty, location = js ''/login'', requests = [], timer = None,
      legacyUser = None, legacyLoading = False, legacyError = None,
      clientSession = None, supabaseUser = None,
      supabaseSession = None, supabaseLoading = False, supabaseError = None\<rparr>"

definition signed_in_world :: world where
  "signed_in_world =
     \<lparr>localStorage = [js ''token'' \<mapsto> js ''tok'', js ''user'' \<mapsto> js ''{}''],
      location = js ''/'', requests = [], timer = None,
      legacyUser = Some (js ''{}''), legacyLoading = False, legacyError = None,
      clientSession = Some \<lparr>access_token = js ''jwt'',
                              session_user = \<lparr>uid = js ''u1'', uemail = js ''bob@example.com''\<rparr>\<rparr>,
      supabaseUser = Some \<lparr>uid = js ''u1'', uemail = js ''bob@example.com''\<rparr>,
      supabaseSession = Some \<lparr>access_token = js ''jwt'',
                                session_user = \<lparr>uid = js ''u1'', uemail = js ''bob@example.com''\<rparr>\<rparr>,
      supabaseLoading = False, supabaseError = None\<rparr>"

section \<open>Theorems\<close>

subsection \<open>Route guard\<close>

text \<open>
  C3. Whenever either facade reports loading the guard renders the waiting state. Once
  neither is loading it renders the protected outlet exactly when the platform facade holds
  a user, and redirects to the login screen otherwise. The legacy user plays no role: the
  guard returns the same for every legacy user.
\<close>

theorem ProtectedRoute_contract:
  "(legacyLoading w \<or> supabaseLoading w \<longrightarrow> ProtectedRoute w = Spinner) \<and>
   (\<not> legacyLoading w \<and> \<not> supabaseLoading w \<longrightarrow>
      (ProtectedRoute w = Outlet \<longleftrightarrow> supabaseUser w \<noteq> None) \<and>
      (supabaseUser w = None \<longrightarrow> ProtectedRoute w = Navigate (js ''/login''))) \<and>
   ProtectedRoute (w\<lparr>legacyUser := u\<rparr>) = ProtectedRoute w"
  by (simp add: ProtectedRoute_def js_def)

theorem ProtectedRoute_contract_witness:
  "ProtectedRoute signed_in_world = Outlet \<and>
   ProtectedRoute sample_world = Navigate (js ''/login'') \<and>
   ProtectedRoute (sample_world\<lparr>legacyLoading := True\<rparr>) = Spinner \<and>
   ProtectedRoute (sample_world\<lparr>legacyUser := Some (js ''{}'')\<rparr>) = Navigate (js ''/login'')"
  using
    ProtectedRoute_contract [of signed_in_world None]
    ProtectedRoute_contract [of sample_world "Some (js ''{}'')"]
    ProtectedRoute_contract [of "sample_world\<lparr>legacyLoading := True\<rparr>" None]
  by (simp add: signed_in_world_def sample_world_def)

subsection \<open>Consent writes\<close>

lemma to_dbPermissions_ok:
  "approved_matches (to_dbPermissions p (some_true (Object_values p)) t)"
  by (simp add: approved_matches_def to_dbPermissions_def some_true_def Object_values_def)

lemma save_consent_trace:
  assumes "approved_matches r"
  shows "\<exists>es. trace (snd (save_consent env u p r pg)) = trace pg @ es \<and> list_all write_ok es"
  using assms
  by (simp add: save_consent_def emit_def Let_def split: option.splits)

lemma save_consent_rows:
  assumes "approved_matches r" and "consents (snd (save_consent env u p r pg)) k = Some x"
  shows "consents pg k = Some x \<or> approved_matches x"
  using assms
  by (auto simp: save_consent_def emit_def Let_def split: option.splits if_splits)

lemma handleUpdatePermissions_trace:
  "\<exists>es. trace (handleUpdatePermissions env providerId newPermissions pg) = trace pg @ es \<and>
        list_all write_ok es"
proof (cases "authUser env")
  case None
  then show ?thesis
    by (simp add: handleUpdatePermissions_def emit_def Let_def)
next
  case (Some user)
  let ?r = "to_dbPermissions newPermissions (some_true (Object_values newPermissions)) (now env)"
  obtain ok pg2 where s: "save_consent env user providerId ?r (pg\<lparr>loading := True\<rparr>) = (ok, pg2)"
    by (cases "save_consent env user providerId ?r (pg\<lparr>loading := True\<rparr>)")
  from save_consent_trace [OF to_dbPermissions_ok, of env user providerId newPermissions "now env" "pg\<lparr>loading := True\<rparr>"] s
  obtain es where es: "trace pg2 = trace pg @ es" "list_all write_ok es" by auto
  show ?thesis
    using Some s es
    by (cases ok) (simp_all add: handleUpdatePermissions_def emit_def Let_def setProviders_def)
qed

lemma handleUpdatePermissions_rows:
  assumes "consents (handleUpdatePermissions env providerId newPermissions pg) k = Some x"
  shows "consents pg k = Some x \<or> approved_matches x"
proof (cases "authUser env")
  case None
  with assms show ?thesis
    by (simp add: handleUpdatePermissions_def emit_def Let_def)
next
  case (Some user)
  let ?r = "to_dbPermissions newPermissions (some_true (Object_values newPermissions)) (now env)"
  obtain ok pg2 where s: "save_consent env user providerId ?r (pg\<lparr>loading := True\<rparr>) = (ok, pg2)"
    by (cases "save_consent env user providerId ?r (pg\<lparr>loading := True\<rparr>)")
  from assms Some s have "consents pg2 k = Some x"
    by (cases ok) (simp_all add: handleUpdatePermissions_def emit_def Let_def setProviders_def)
  with save_consent_rows [OF to_dbPermissions_ok, of env user providerId newPermissions "now env" "pg\<lparr>loading := True\<rparr>" k x] s
  show ?thesis by simp
qed


lemma handlePermissionToggle_trace:
  "\<exists>es. trace (handlePermissionToggle env providerId permission pg) = trace pg @ es \<and>
        list_all write_ok es"
proof (cases "find (\<lambda>p. ident p = providerId) (providers pg)")
  case None
  then show ?thesis by (simp add: handlePermissionToggle_def)
next
  case found: (Some provider)
  let ?n = "set_permission (permissions provider) permission
              (\<not> get_permission (permissions provider) permission)"
  show ?thesis
  proof (cases "authUser env")
    case None
    with found show ?thesis
      by (simp add: handlePermissionToggle_def emit_def Let_def)
  next
    case (Some user)
    let ?r = "to_dbPermissions ?n (some_true (Object_values ?n)) (now env)"
    obtain ok pg2 where s: "save_consent env user providerId ?r (pg\<lparr>loading := True\<rparr>) = (ok, pg2)"
      by (cases "save_consent env user providerId ?r (pg\<lparr>loading := True\<rparr>)")
    from save_consent_trace [OF to_dbPermissions_ok, of env user providerId ?n "now env" "pg\<lparr>loading := True\<rparr>"] s
    obtain es where es: "trace pg2 = trace pg @ es" "list_all write_ok es" by auto
    show ?thesis
      using found Some s es
      by (cases ok) (simp_all add: handlePermissionToggle_def emit_def Let_def setProviders_def)
  qed
qed

lemma handlePermissionToggle_rows:
  assumes "consents (handlePermissionToggle env providerId permission pg) k = Some x"
  shows "consents pg k = Some x \<or> approved_matches x"
proof (cases "find (\<lambda>p. ident p = providerId) (providers pg)")
  case None
  with assms show ?thesis by (simp add: handlePermissionToggle_def)
next
  case found: (Some provider)
  let ?n = "set_permission (permissions provider) permission
              (\<not> get_permission (permissions provider) permission)"
  show ?thesis
  proof (cases "authUser env")
    case None
    with found assms show ?thesis
      by (simp add: handlePermissionToggle_def emit_def Let_def)
  next
    case (Some user)
    let ?r = "to_dbPermissions ?n (some_true (Object_values ?n)) (now env)"
    obtain ok pg2 where s: "save_consent env user providerId ?r (pg\<lparr>loading := True\<rparr>) = (ok, pg2)"
      by (cases "save_consent env user providerId ?r (pg\<lparr>loading := True\<rparr>)")
    from assms found Some s have "consents pg2 k = Some x"
      by (cases ok) (simp_all add: handlePermissionToggle_def emit_def Let_def setProviders_def)
    with save_consent_rows [OF to_dbPermissions_ok, of env user providerId ?n "now env" "pg\<lparr>loading := True\<rparr>" k x] s
    show ?thesis by simp
  qed
qed

lemma handleSaveChanges_unfold:
  "handleSaveChanges env1 env2 pg =
     (handleUpdatePermissions env2 (ident (modal_provider pg)) (currentPermissions pg)
        (case authUser env1 of
           None \<Rightarrow> pg\<lparr>modal_loading := True, modal_error := None\<rparr>
         | Some user \<Rightarrow>
             (case save_consent env1 user (ident (modal_provider pg))
                     (to_dbPermissions (currentPermissions pg)
                        (some_true (Object_values (currentPermissions pg))) (now env1))
                     (pg\<lparr>modal_loading := True, modal_error := None\<rparr>) of
                (True, pg2) \<Rightarrow> pg2
              | (False, pg2) \<Rightarrow> emit ConsoleError pg2)))
      \<lparr>isModalOpen := False, modal_loading := False\<rparr>"
  by (auto simp: handleSaveChanges_def Let_def save_consent_def emit_def
           split: option.splits prod.splits bool.splits)

lemma handleSaveChanges_trace:
  "\<exists>es. trace (handleSaveChanges env1 env2 pg) = trace pg @ es \<and> list_all write_ok es"
proof -
  let ?pg1 = "pg\<lparr>modal_loading := True, modal_error := None\<rparr>"
  let ?mid = "case authUser env1 of
           None \<Rightarrow> ?pg1
         | Some user \<Rightarrow>
             (case save_consent env1 user (ident (modal_provider pg))
                     (to_dbPermissions (currentPermissions pg)
                        (some_true (Object_values (currentPermissions pg))) (now env1)) ?pg1 of
                (True, pg2) \<Rightarrow> pg2
              | (False, pg2) \<Rightarrow> emit ConsoleError pg2)"
  have mid: "\<exists>es. trace ?mid = trace pg @ es \<and> list_all write_ok es"
  proof (cases "authUser env1")
    case None
    then show ?thesis by simp
  next
    case (Some user)
    let ?r = "to_dbPermissions (currentPermissions pg)
                (some_true (Object_values (currentPermissions pg))) (now env1)"
    obtain ok pg2 where s: "save_consent env1 user (ident (modal_provider pg)) ?r ?pg1 = (ok, pg2)"
      by (cases "save_consent env1 user (ident (modal_provider pg)) ?r ?pg1")
    from save_consent_trace [OF to_dbPermissions_ok, of env1 user "ident (modal_provider pg)"
        "currentPermissions pg" "now env1" ?pg1] s
    obtain es where es: "trace pg2 = trace pg @ es" "list_all write_ok es" by auto
    show ?thesis using Some s es by (cases ok) (simp_all add: emit_def)
  qed
  then obtain es1 where es1: "trace ?mid = trace pg @ es1" "list_all write_ok es1" by blast
  from handleUpdatePermissions_trace [of env2 "ident (modal_provider pg)" "currentPermissions pg" ?mid]
  obtain es2 where es2:
    "trace (handleUpdatePermissions env2 (ident (modal_provider pg)) (currentPermissions pg) ?mid)
       = trace ?mid @ es2" "list_all write_ok es2" by blast
  have "trace (handleSaveChanges env1 env2 pg) = trace pg @ (es1 @ es2)"
    by (simp add: handleSaveChanges_unfold es2 es1)
  moreover have "list_all write_ok (es1 @ es2)" using es1 es2 by simp
  ultimately show ?thesis by blast
qed

lemma handleSaveChanges_rows:
  assumes "consents (handleSaveChanges env1 env2 pg) k = Some x"
  shows "consents pg k = Some x \<or> approved_matches x"
proof -
  let ?pg1 = "pg\<lparr>modal_loading := True, modal_error := None\<rparr>"
  let ?mid = "case authUser env1 of
           None \<Rightarrow> ?pg1
         | Some user \<Rightarrow>
             (case save_consent env1 user (ident (modal_provider pg))
                     (to_dbPermissions (currentPermissions pg)
                        (some_true (Object_values (currentPermissions pg))) (now env1)) ?pg1 of
                (True, pg2) \<Rightarrow> pg2
              | (False, pg2) \<Rightarrow> emit ConsoleError pg2)"
  have mid: "consents ?mid k = Some y \<Longrightarrow> consents pg k = Some y \<or> approved_matches y" for y
  proof (cases "authUser env1")
    case None
    assume "consents ?mid k = Some y"
    with None show ?thesis by simp
  next
    case (Some user)
    assume a: "consents ?mid k = Some y"
    let ?r = "to_dbPermissions (currentPermissions pg)
                (some_true (Object_values (currentPermissions pg))) (now env1)"
    obtain ok pg2 where s: "save_consent env1 user (ident (modal_provider pg)) ?r ?pg1 = (ok, pg2)"
      by (cases "save_consent env1 user (ident (modal_provider pg)) ?r ?pg1")
    from a Some s have "consents pg2 k = Some y" by (cases ok) (simp_all add: emit_def)
    with save_consent_rows [OF to_dbPermissions_ok, of env1 user "ident (modal_provider pg)"
        "currentPermissions pg" "now env1" ?pg1 k y] s
    show ?thesis by simp
  qed
  from assms have
    "consents (handleUpdatePermissions env2 (ident (modal_provider pg)) (currentPermissions pg) ?mid) k
       = Some x"
    by (simp add: handleSaveChanges_unfold)
  from handleUpdatePermissions_rows [OF this] mid show ?thesis by blast
qed

text \<open>
  C1. Every write that the single-flag toggle, the page's bulk save and the modal's save
  send to the consent table, an update as well as an insert, carries an \<open>approved\<close> that
  is the disjunction of the three flags it carries: each handler only appends to the
  trace, and every write it appends satisfies this. Consequently every row of the table
  that a handler has changed satisfies it too.
\<close>

theorem consent_writes_approved:
  "(\<exists>es. trace (handlePermissionToggle env providerId permission pg) = trace pg @ es \<and>
         list_all write_ok es) \<and>
   (\<exists>es. trace (handleUpdatePermissions env providerId newPermissions pg) = trace pg @ es \<and>
         list_all write_ok es) \<and>
   (\<exists>es. trace (handleSaveChanges env env2 pg) = trace pg @ es \<and> list_all write_ok es) \<and>
   (\<forall>k r. consents (handlePermissionToggle env providerId permission pg) k = Some r \<longrightarrow>
      consents pg k = Some r \<or> approved_matches r) \<and>
   (\<forall>k r. consents (handleUpdatePermissions env providerId newPermissions pg) k = Some r \<longrightarrow>
      consents pg k = Some r \<or> approved_matches r) \<and>
   (\<forall>k r. consents (handleSaveChanges env env2 pg) k = Some r \<longrightarrow>
      consents pg k = Some r \<or> approved_matches r)"
  by (intro conjI allI impI;
      (rule handlePermissionToggle_trace handleUpdatePermissions_trace handleSaveChanges_trace
       | erule handlePermissionToggle_rows handleUpdatePermissions_rows handleSaveChanges_rows))

theorem consent_writes_approved_witness:
  "consents (handlePermissionToggle (platform_up (js ''2025-02-27T05:19:45.000Z'')) (js ''p1'')
              LabResults
              (sample_page (sample_provider False False False)
                 \<lparr>labResults = False, medications = False, fitnessData = False\<rparr> Map.empty))
     (js ''u1'', js ''p1'') =
     Some \<lparr>lab_results = True, medications_column = False, fitness_data = False,
           approved = True, updated_at = js ''2025-02-27T05:19:45.000Z''\<rparr> \<and>
   approved_matches
     \<lparr>lab_results = True, medications_column = False, fitness_data = False,
      approved = True, updated_at = js ''2025-02-27T05:19:45.000Z''\<rparr>"
proof -
  let ?pg = "sample_page (sample_provider False False False)
               \<lparr>labResults = False, medications = False, fitnessData = False\<rparr> Map.empty"
  let ?env = "platform_up (js ''2025-02-27T05:19:45.000Z'')"
  let ?row = "\<lparr>lab_results = True, medications_column = False, fitness_data = False,
               approved = True, updated_at = js ''2025-02-27T05:19:45.000Z''\<rparr>"
  have row: "consents (handlePermissionToggle ?env (js ''p1'') LabResults ?pg)
               (js ''u1'', js ''p1'') = Some ?row"
    by (simp add: handlePermissionToggle_def save_consent_def emit_def setProviders_def
          to_dbPermissions_def some_true_def Object_values_def sample_page_def
          sample_provider_def platform_up_def Let_def)
  have before: "consents ?pg (js ''u1'', js ''p1'') = None"
    by (simp add: sample_page_def)
  have "\<forall>k r. consents (handlePermissionToggle ?env (js ''p1'') LabResults ?pg) k = Some r \<longrightarrow>
          consents ?pg k = Some r \<or> approved_matches r"
    using consent_writes_approved
      [of ?env "js ''p1''" LabResults ?pg "currentPermissions ?pg" ?env]
    by (elim conjE)
  from this [rule_format, OF row] before have "approved_matches ?row" by simp
  with row show ?thesis by simp
qed


subsection \<open>Toggling a flag\<close>

lemma toggle_twice_permissions:
  "set_permission (set_permission p k (\<not> get_permission p k)) k
     (\<not> get_permission (set_permission p k (\<not> get_permission p k)) k) = p"
  by (cases k) simp_all

lemma find_setProviders:
  "find (\<lambda>q. ident q = pid) (providers (setProviders pid n pg)) =
     map_option (\<lambda>q. q\<lparr>permissions := n,
                       accessStatus := (if some_true (Object_values n) then Granted else Disconnected)\<rparr>)
       (find (\<lambda>q. ident q = pid) (providers pg))"
proof -
  have aux: "find (\<lambda>q. ident q = pid)
          (map (\<lambda>q. if ident q = pid then q\<lparr>permissions := n, accessStatus := a\<rparr> else q) xs) =
        map_option (\<lambda>q. q\<lparr>permissions := n, accessStatus := a\<rparr>) (find (\<lambda>q. ident q = pid) xs)"
    for xs a
    by (induction xs) simp_all
  show ?thesis by (simp add: setProviders_def aux)
qed

lemma toggle_success:
  assumes "find (\<lambda>p. ident p = providerId) (providers pg) = Some provider"
    and "authUser env = Some user" and "\<not> queryError env" and "\<not> writeError env"
  shows "consents (handlePermissionToggle env providerId permission pg) =
           (consents pg)((user, providerId) \<mapsto>
              to_dbPermissions
                (set_permission (permissions provider) permission
                   (\<not> get_permission (permissions provider) permission))
                (some_true (Object_values
                   (set_permission (permissions provider) permission
                      (\<not> get_permission (permissions provider) permission))))
                (now env))"
    and "providers (handlePermissionToggle env providerId permission pg) =
           providers (setProviders providerId
             (set_permission (permissions provider) permission
                (\<not> get_permission (permissions provider) permission)) pg)"
  using assms
  by (simp_all add: handlePermissionToggle_def save_consent_def emit_def Let_def setProviders_def
        split: option.splits)

text \<open>
  C4 (as amended). Take a listed provider, a signed-in user and two toggles of the same flag
  whose reads and writes all succeed. After the first toggle the record of the pair holds
  the flags with that one negated and an \<open>approved\<close> equal to their disjunction. After
  the second it holds the provider's original flags, an \<open>approved\<close> equal to their
  disjunction and the time of the second write, and the page lists the original flags
  again. So a record that held the listed flags and an \<open>approved\<close> equal to their
  disjunction is back to what it was, but for \<open>updated_at\<close>.
\<close>

theorem toggle_twice:
  assumes found: "find (\<lambda>p. ident p = providerId) (providers pg) = Some provider"
    and e1: "authUser env1 = Some user" "\<not> queryError env1" "\<not> writeError env1"
    and e2: "authUser env2 = Some user" "\<not> queryError env2" "\<not> writeError env2"
  shows
    "(\<exists>r1. consents (handlePermissionToggle env1 providerId permission pg) (user, providerId) = Some r1
          \<and> approved_matches r1
          \<and> \<lparr>labResults = lab_results r1, medications = medications_column r1,
              fitnessData = fitness_data r1\<rparr> =
            set_permission (permissions provider) permission
              (\<not> get_permission (permissions provider) permission)) \<and>
     consents (handlePermissionToggle env2 providerId permission
                (handlePermissionToggle env1 providerId permission pg)) (user, providerId) =
       Some \<lparr>lab_results = labResults (permissions provider),
             medications_column = medications (permissions provider),
             fitness_data = fitnessData (permissions provider),
             approved = (labResults (permissions provider) \<or> medications (permissions provider)
                          \<or> fitnessData (permissions provider)),
             updated_at = now env2\<rparr> \<and>
     map_option permissions
       (find (\<lambda>p. ident p = providerId)
          (providers (handlePermissionToggle env2 providerId permission
                       (handlePermissionToggle env1 providerId permission pg)))) =
       Some (permissions provider) \<and>
     (\<forall>r0. consents pg (user, providerId) = Some r0 \<and>
           lab_results r0 = labResults (permissions provider) \<and>
           medications_column r0 = medications (permissions provider) \<and>
           fitness_data r0 = fitnessData (permissions provider) \<and>
           approved_matches r0 \<longrightarrow>
        consents (handlePermissionToggle env2 providerId permission
                   (handlePermissionToggle env1 providerId permission pg)) (user, providerId) =
          Some (r0\<lparr>updated_at := now env2\<rparr>))"
proof -
  let ?n = "set_permission (permissions provider) permission
              (\<not> get_permission (permissions provider) permission)"
  let ?pg1 = "handlePermissionToggle env1 providerId permission pg"
  let ?pg2 = "handlePermissionToggle env2 providerId permission ?pg1"
  let ?st = "\<lambda>n. if some_true (Object_values n) then Granted else Disconnected"
  let ?final = "\<lparr>lab_results = labResults (permissions provider),
             medications_column = medications (permissions provider),
             fitness_data = fitnessData (permissions provider),
             approved = (labResults (permissions provider) \<or> medications (permissions provider)
                          \<or> fitnessData (permissions provider)),
             updated_at = now env2\<rparr>"
  have c1: "consents ?pg1 (user, providerId) =
              Some (to_dbPermissions ?n (some_true (Object_values ?n)) (now env1))"
    using toggle_success(1) [OF found e1] by simp
  have f1: "find (\<lambda>p. ident p = providerId) (providers ?pg1) =
              Some (provider\<lparr>permissions := ?n, accessStatus := ?st ?n\<rparr>)"
    using toggle_success(2) [OF found e1, of permission] find_setProviders [of providerId ?n pg] found
    by simp
  have inv: "set_permission ?n permission (\<not> get_permission ?n permission) = permissions provider"
    by (rule toggle_twice_permissions)
  have c2: "consents ?pg2 (user, providerId) = Some ?final"
    using toggle_success(1) [OF f1 e2, of permission] inv
    by (simp add: to_dbPermissions_def some_true_def Object_values_def)
  have f2: "map_option permissions (find (\<lambda>p. ident p = providerId) (providers ?pg2)) =
            Some (permissions provider)"
    using toggle_success(2) [OF f1 e2, of permission]
      find_setProviders [of providerId "permissions provider" ?pg1] f1 inv
    by simp
  have first: "\<exists>r1. consents ?pg1 (user, providerId) = Some r1 \<and> approved_matches r1 \<and>
      \<lparr>labResults = lab_results r1, medications = medications_column r1,
        fitnessData = fitness_data r1\<rparr> = ?n"
    using c1
    by (simp add: to_dbPermissions_def approved_matches_def some_true_def Object_values_def)
  have same: "?final = r0\<lparr>updated_at := now env2\<rparr>"
    if "lab_results r0 = labResults (permissions provider)"
      "medications_column r0 = medications (permissions provider)"
      "fitness_data r0 = fitnessData (permissions provider)" "approved_matches r0" for r0
    using that by (cases r0) (simp add: approved_matches_def)
  show ?thesis
    using first c2 f2 same by simp
qed

theorem toggle_twice_witness:
  "consents
     (handlePermissionToggle (platform_up (js ''2025-02-27T05:20:12.000Z'')) (js ''p1'') Medications
        (handlePermissionToggle (platform_up (js ''2025-02-27T05:19:50.000Z'')) (js ''p1'') Medications
           (sample_page (sample_provider True False False)
              \<lparr>labResults = True, medications = False, fitnessData = False\<rparr>
              [(js ''u1'', js ''p1'') \<mapsto>
                 \<lparr>lab_results = True, medications_column = False, fitness_data = False,
                  approved = True, updated_at = js ''2025-02-27T05:19:45.000Z''\<rparr>])))
     (js ''u1'', js ''p1'') =
   Some \<lparr>lab_results = True, medications_column = False, fitness_data = False,
         approved = True, updated_at = js ''2025-02-27T05:20:12.000Z''\<rparr>"
proof -
  let ?pg = "sample_page (sample_provider True False False)
              \<lparr>labResults = True, medications = False, fitnessData = False\<rparr>
              [(js ''u1'', js ''p1'') \<mapsto>
                 \<lparr>lab_results = True, medications_column = False, fitness_data = False,
                  approved = True, updated_at = js ''2025-02-27T05:19:45.000Z''\<rparr>]"
  have found: "find (\<lambda>p. ident p = js ''p1'') (providers ?pg) = Some (sample_provider True False False)"
    by (simp add: sample_page_def sample_provider_def)
  show ?thesis
    using toggle_twice [OF found, of "platform_up (js ''2025-02-27T05:19:50.000Z'')" "js ''u1''"
        "platform_up (js ''2025-02-27T05:20:12.000Z'')" Medications]
    by (simp add: platform_up_def sample_provider_def)
qed

text \<open>
  C4 as stated fails for a record whose \<open>approved\<close> is not the disjunction of its flags
  (the column was added later, with default false): two toggles leave it with
  \<open>approved\<close> true.
\<close>

theorem toggle_twice_counterexample:
  "consents
     (sample_page (sample_provider True False False)
        \<lparr>labResults = True, medications = False, fitnessData = False\<rparr>
        [(js ''u1'', js ''p1'') \<mapsto>
           \<lparr>lab_results = True, medications_column = False, fitness_data = False,
            approved = False, updated_at = js ''2025-02-27T05:19:45.000Z''\<rparr>])
     (js ''u1'', js ''p1'') =
     Some \<lparr>lab_results = True, medications_column = False, fitness_data = False,
           approved = False, updated_at = js ''2025-02-27T05:19:45.000Z''\<rparr> \<and>
   consents
     (handlePermissionToggle (platform_up (js ''2025-02-27T05:19:45.000Z'')) (js ''p1'') Medications
        (handlePermissionToggle (platform_up (js ''2025-02-27T05:19:45.000Z'')) (js ''p1'') Medications
           (sample_page (sample_provider True False False)
              \<lparr>labResults = True, medications = False, fitnessData = False\<rparr>
              [(js ''u1'', js ''p1'') \<mapsto>
                 \<lparr>lab_results = True, medications_column = False, fitness_data = False,
                  approved = False, updated_at = js ''2025-02-27T05:19:45.000Z''\<rparr>])))
     (js ''u1'', js ''p1'') =
     Some \<lparr>lab_results = True, medications_column = False, fitness_data = False,
           approved = True, updated_at = js ''2025-02-27T05:19:45.000Z''\<rparr>"
  by (simp add: handlePermissionToggle_def save_consent_def emit_def setProviders_def
        to_dbPermissions_def some_true_def Object_values_def sample_page_def
        sample_provider_def platform_up_def Let_def)

text \<open>
  C5. Switching \<open>labResults\<close> on for provider \<open>p1\<close>, listed with all three flags false,
  with a signed-in user and a platform that accepts the write, leaves the record
  \<open>{labResults: true, medications: false, fitnessData: false, approved: true}\<close> in the
  table, and the page lists these flags.
\<close>

theorem toggle_labResults_example:
  "consents
     (handlePermissionToggle
        \<lparr>authUser = Some user, queryError = False, writeError = False, now = time\<rparr>
        (js ''p1'') LabResults
        (pg\<lparr>providers :=
              prov\<lparr>ident := js ''p1'',
                   permissions := \<lparr>labResults = False, medications = False, fitnessData = False\<rparr>\<rparr>
              # others\<rparr>))
     (user, js ''p1'') =
     Some \<lparr>lab_results = True, medications_column = False, fitness_data = False,
           approved = True, updated_at = time\<rparr> \<and>
   map_option permissions
     (find (\<lambda>p. ident p = js ''p1'')
        (providers
           (handlePermissionToggle
              \<lparr>authUser = Some user, queryError = False, writeError = False, now = time\<rparr>
              (js ''p1'') LabResults
              (pg\<lparr>providers :=
                    prov\<lparr>ident := js ''p1'',
                         permissions := \<lparr>labResults = False, medications = False, fitnessData = False\<rparr>\<rparr>
                    # others\<rparr>)))) =
     Some \<lparr>labResults = True, medications = False, fitnessData = False\<rparr>"
  by (simp add: handlePermissionToggle_def save_consent_def emit_def setProviders_def
        to_dbPermissions_def some_true_def Object_values_def Let_def split: option.splits)

subsection \<open>Saving when the platform rejects the write\<close>

text \<open>
  C2 (the code at the failing input). The modal saves \<open>labResults\<close> for provider \<open>p1\<close>
  while the platform rejects the insert, in the modal and again in the page handler. The
  modal logs its error and calls the page handler; the page handler sends the same insert
  to the platform again, logs and raises an alert. No request goes to the REST client,
  the listed provider keeps its old flags and the table stays empty. The single-flag
  toggle on the same platform logs, raises its alert and leaves the list as it was.
\<close>

theorem handleSaveChanges_platform_failure:
  "trace (handleSaveChanges (platform_rejecting (js ''t1'')) (platform_rejecting (js ''t2''))
            (sample_page (sample_provider False False False)
               \<lparr>labResults = True, medications = False, fitnessData = False\<rparr> Map.empty)) =
     [Select (js ''u1'') (js ''p1''),
      Insert (js ''u1'') (js ''p1'')
        \<lparr>lab_results = True, medications_column = False, fitness_data = False,
         approved = True, updated_at = js ''t1''\<rparr>,
      ConsoleError,
      Select (js ''u1'') (js ''p1''),
      Insert (js ''u1'') (js ''p1'')
        \<lparr>lab_results = True, medications_column = False, fitness_data = False,
         approved = True, updated_at = js ''t2''\<rparr>,
      ConsoleError,
      Alert (js ''Failed to update permissions. Please try again.'')] \<and>
   \<not> list_ex is_rest
       (trace (handleSaveChanges (platform_rejecting (js ''t1'')) (platform_rejecting (js ''t2''))
            (sample_page (sample_provider False False False)
               \<lparr>labResults = True, medications = False, fitnessData = False\<rparr> Map.empty))) \<and>
   providers (handleSaveChanges (platform_rejecting (js ''t1'')) (platform_rejecting (js ''t2''))
            (sample_page (sample_provider False False False)
               \<lparr>labResults = True, medications = False, fitnessData = False\<rparr> Map.empty)) =
     [sample_provider False False False] \<and>
   consents (handleSaveChanges (platform_rejecting (js ''t1'')) (platform_rejecting (js ''t2''))
            (sample_page (sample_provider False False False)
               \<lparr>labResults = True, medications = False, fitnessData = False\<rparr> Map.empty)) =
     Map.empty \<and>
   modal_error (handleSaveChanges (platform_rejecting (js ''t1'')) (platform_rejecting (js ''t2''))
            (sample_page (sample_provider False False False)
               \<lparr>labResults = True, medications = False, fitnessData = False\<rparr> Map.empty)) =
     None \<and>
   trace (handlePermissionToggle (platform_rejecting (js ''t1'')) (js ''p1'') LabResults
            (sample_page (sample_provider False False False)
               \<lparr>labResults = False, medications = False, fitnessData = False\<rparr> Map.empty)) =
     [Select (js ''u1'') (js ''p1''),
      Insert (js ''u1'') (js ''p1'')
        \<lparr>lab_results = True, medications_column = False, fitness_data = False,
         approved = True, updated_at = js ''t1''\<rparr>,
      ConsoleError,
      Alert (js ''Failed to update permission. Please try again.'')] \<and>
   providers (handlePermissionToggle (platform_rejecting (js ''t1'')) (js ''p1'') LabResults
            (sample_page (sample_provider False False False)
               \<lparr>labResults = False, medications = False, fitnessData = False\<rparr> Map.empty)) =
     [sample_provider False False False]"
  by (simp add: handleSaveChanges_def handleUpdatePermissions_def handlePermissionToggle_def
        save_consent_def emit_def
        setProviders_def to_dbPermissions_def some_true_def Object_values_def sample_page_def
        sample_provider_def platform_rejecting_def Let_def)

subsection \<open>Numbers as text\<close>

lemma show_nat_ne: "show_nat n \<noteq> []"
  by (induction n rule: show_nat.induct) (subst show_nat.simps, simp)

lemma show_nat_digits: "c \<in> set (show_nat n) \<Longrightarrow> 48 \<le> c \<and> c \<le> 57"
proof (induction n rule: show_nat.induct)
  case (1 n)
  show ?case
  proof (cases "n < 10")
    case True
    with "1.prems" show ?thesis by (subst (asm) show_nat.simps) simp
  next
    case False
    from "1.prems" False have "c \<in> set (show_nat (n div 10)) \<or> c = 48 + n mod 10"
      by (subst (asm) show_nat.simps) auto
    then show ?thesis
    proof
      assume "c \<in> set (show_nat (n div 10))"
      with "1.IH" False show ?thesis by simp
    next
      assume "c = 48 + n mod 10"
      moreover have "n mod 10 < 10" by simp
      ultimately show ?thesis by linarith
    qed
  qed
qed

lemma digits_value_snoc: "digits_value r (z @ [c]) = digits_value r z * r + digit_value c"
  by (simp add: digits_value_def)

lemma digit_value_dec: "d < 10 \<Longrightarrow> digit_value (48 + d) = d"
  by (simp add: digit_value_def)

lemma digits_value_show_nat: "digits_value 10 (show_nat n) = n"
proof (induction n rule: show_nat.induct)
  case (1 n)
  show ?case
  proof (cases "n < 10")
    case True
    then show ?thesis
      by (subst show_nat.simps) (simp add: digits_value_def digit_value_dec)
  next
    case False
    with "1.IH" have "digits_value 10 (show_nat (n div 10)) = n div 10" by simp
    with False show ?thesis
      by (subst show_nat.simps) (simp add: digits_value_snoc digit_value_dec)
  qed
qed


lemma is_digit_dec: "48 \<le> c \<Longrightarrow> c \<le> 57 \<Longrightarrow> is_digit 10 c"
  by (simp add: is_digit_def digit_value_def)

lemma not_space_digit: "48 \<le> c \<Longrightarrow> c \<le> 57 \<Longrightarrow> \<not> is_js_space c"
  by (auto simp: is_js_space_def)

lemma parseInt_decimal:
  assumes ne: "z \<noteq> []" and dig: "\<forall>c\<in>set z. 48 \<le> c \<and> c \<le> 57"
  shows "parseInt z = Some (int (digits_value 10 z))"
    and "parseInt (45 # z) = Some (- int (digits_value 10 z))"
proof -
  obtain c cs where z: "z = c # cs" using ne by (cases z) auto
  have c: "48 \<le> c" "c \<le> 57" using dig z by auto
  have sp: "dropWhile is_js_space z = z"
    using z c by (simp add: not_space_digit)
  have sg: "(case z of [] \<Rightarrow> False | c # _ \<Rightarrow> c = 45) = False"
    using z c by simp
  have s2: "(case z of [] \<Rightarrow> [] | c # rest \<Rightarrow> if c = 45 \<or> c = 43 then rest else z) = z"
    using z c by simp
  have hex: "(case z of a # b # _ \<Rightarrow> a = 48 \<and> (b = 120 \<or> b = 88) | _ \<Rightarrow> False) = False"
  proof (cases cs)
    case Nil
    with z show ?thesis by simp
  next
    case (Cons b bs)
    with dig z have "48 \<le> b \<and> b \<le> 57" by simp
    with z Cons show ?thesis by simp
  qed
  have tw: "takeWhile (is_digit 10) z = z"
    using dig by (intro takeWhile_eq_all_conv [THEN iffD2]) (auto intro: is_digit_dec)
  show "parseInt z = Some (int (digits_value 10 z))"
    unfolding parseInt_def Let_def sp sg s2 hex using ne by (simp add: tw)
  have sp': "dropWhile is_js_space (45 # z) = 45 # z"
    by (simp add: is_js_space_def)
  show "parseInt (45 # z) = Some (- int (digits_value 10 z))"
    unfolding parseInt_def Let_def sp' using ne hex by (simp add: tw)
qed

lemma show_nat_all_digits: "\<forall>c\<in>set (show_nat n). 48 \<le> c \<and> c \<le> 57"
  using show_nat_digits by blast

lemma parseInt_show_int: "parseInt (show_int i) = Some i"
proof (cases "i < 0")
  case True
  then show ?thesis
    using parseInt_decimal(2) [OF show_nat_ne show_nat_all_digits, of "nat (- i)"]
    by (simp add: show_int_def digits_value_show_nat)
next
  case False
  then show ?thesis
    using parseInt_decimal(1) [OF show_nat_ne show_nat_all_digits, of "nat i"]
    by (simp add: show_int_def digits_value_show_nat)
qed

lemma show_int_ne: "show_int i \<noteq> []"
  by (simp add: show_int_def show_nat_ne)

subsection \<open>Resending the verification e-mail\<close>

text \<open>
  C10 (as amended). If the storage holds, under the key of the address, the time of a
  recorded attempt and the clock is less than 60000 ms past it, the call throws the
  rate-limit error, sends nothing and leaves the storage as it is. If no attempt is
  recorded, or the recorded one is at least 60000 ms old, the call sends the request;
  when the request succeeds it then stores the time read after it under the key of the
  address, and when the request fails it throws that failure and stores nothing.
\<close>

theorem resendVerification_cooldown:
  "(localStorage w (verification_key addr) = Some (show_int recorded) \<and> now1 - recorded < 60000 \<longrightarrow>
      authService_resendVerification now1 now2 fr addr w =
        (Inl (JsError (js ''Please wait a minute before requesting another verification email.'')),
         w)) \<and>
   (localStorage w (verification_key addr) = None \<or>
    localStorage w (verification_key addr) = Some (show_int recorded) \<and> 60000 \<le> now1 - recorded \<longrightarrow>
      requests (snd (authService_resendVerification now1 now2 fr addr w)) =
        requests w @ [(POST, js ''send-Verify-email'')] \<and>
      (case fst (api_post (js ''send-Verify-email'') fr w) of
         Inr j \<Rightarrow>
           fst (authService_resendVerification now1 now2 fr addr w) = Inr () \<and>
           localStorage (snd (authService_resendVerification now1 now2 fr addr w)) =
             (localStorage w)(verification_key addr \<mapsto> show_int now2)
       | Inl e \<Rightarrow>
           fst (authService_resendVerification now1 now2 fr addr w) = Inl e \<and>
           localStorage (snd (authService_resendVerification now1 now2 fr addr w)) =
             localStorage w))"
  by (auto simp: authService_resendVerification_def api_post_def api_request_def Let_def
        parseInt_show_int show_int_ne split: sum.splits option.splits)

theorem resendVerification_cooldown_witness:
  "authService_resendVerification 1740633645000 1740633645250
     (Responded \<lparr>status = 200, body = Some (JObj [])\<rparr>) (js ''a@b.c'')
     (sample_world\<lparr>localStorage :=
        [verification_key (js ''a@b.c'') \<mapsto> show_int 1740633600000]\<rparr>) =
     (Inl (JsError (js ''Please wait a minute before requesting another verification email.'')),
      sample_world\<lparr>localStorage :=
        [verification_key (js ''a@b.c'') \<mapsto> show_int 1740633600000]\<rparr>) \<and>
   localStorage (snd (authService_resendVerification 1740633645000 1740633645250
       (Responded \<lparr>status = 200, body = Some (JObj [])\<rparr>) (js ''a@b.c'') sample_world)) =
     [verification_key (js ''a@b.c'') \<mapsto> show_int 1740633645250] \<and>
   requests (snd (authService_resendVerification 1740633645000 1740633645250
       (Responded \<lparr>status = 200, body = Some (JObj [])\<rparr>) (js ''a@b.c'') sample_world)) =
     [(POST, js ''send-Verify-email'')]"
proof -
  let ?ok = "Responded \<lparr>status = 200, body = Some (JObj [])\<rparr>"
  let ?w = "sample_world\<lparr>localStorage :=
        [verification_key (js ''a@b.c'') \<mapsto> show_int 1740633600000]\<rparr>"
  have ok: "fst (api_post (js ''send-Verify-email'') ?ok sample_world) = Inr (JObj [])"
    by (simp add: api_post_def api_request_def handleResponse_def response_ok_def)
  have empty: "localStorage sample_world = Map.empty" "requests sample_world = []"
    by (simp_all add: sample_world_def)
  show ?thesis
    using
      resendVerification_cooldown [of ?w "js ''a@b.c''" 1740633600000 1740633645000
        1740633645250 ?ok]
      resendVerification_cooldown [of sample_world "js ''a@b.c''" 0 1740633645000
        1740633645250 ?ok]
      ok empty
    by simp
qed

text \<open>
  C10 as stated fails when the request fails: with no recorded attempt and a response of
  status 500 the call sends the request, throws, and records no time.
\<close>

theorem resendVerification_counterexample:
  "fst (authService_resendVerification 1740633645000 1740633645250
          (Responded \<lparr>status = 500, body = None\<rparr>) (js ''a@b.c'') sample_world) =
     Inl (ApiError 500 (Some (JStr (js ''An error occurred'')))) \<and>
   requests (snd (authService_resendVerification 1740633645000 1740633645250
          (Responded \<lparr>status = 500, body = None\<rparr>) (js ''a@b.c'') sample_world)) =
     [(POST, js ''send-Verify-email'')] \<and>
   localStorage (snd (authService_resendVerification 1740633645000 1740633645250
          (Responded \<lparr>status = 500, body = None\<rparr>) (js ''a@b.c'') sample_world))
     (verification_key (js ''a@b.c'')) = None"
  by (simp add: authService_resendVerification_def api_post_def api_request_def
        handleResponse_def response_ok_def sample_world_def Let_def)

subsection \<open>REST responses that are not ok\<close>

text \<open>
  C9 (the code at the failing input). A response of status 500 whose body is the JSON
  text \<open>null\<close> makes \<open>handleResponse\<close> throw a \<open>TypeError\<close>, not an \<open>ApiError\<close>; and a
  response of status 401 whose body is the JSON object \<open>{}\<close> gives an \<open>ApiError\<close> whose
  message is \<open>undefined\<close>, not the fallback text.
\<close>

theorem handleResponse_null_body:
  "handleResponse \<lparr>status = 500, body = Some JNull\<rparr> = Inl TypeError \<and>
   handleResponse \<lparr>status = 401, body = Some (JObj [])\<rparr> = Inl (ApiError 401 None)"
  by (simp add: handleResponse_def response_ok_def)

text \<open>
  What does hold of a response that is not ok: the fallback text is the message when the
  body is not JSON, and every JSON body but \<open>null\<close> gives an \<open>ApiError\<close> with the status.
\<close>

lemma handleResponse_not_ok:
  assumes "\<not> response_ok r"
  shows "body r = None \<Longrightarrow>
           handleResponse r = Inl (ApiError (status r)
             (Some (JStr (if status r = 401 then js ''Invalid credentials''
                          else js ''An error occurred''))))"
    and "body r = Some j \<Longrightarrow> j \<noteq> JNull \<Longrightarrow> \<exists>m. handleResponse r = Inl (ApiError (status r) m)"
  using assms by (auto simp: handleResponse_def Let_def js_def split: json.splits)

subsection \<open>Validation before registering\<close>

text \<open>
  C8. When the e-mail does not match the pattern, or the password has fewer than 8 code
  units, or the name is blank after trimming, \<open>register\<close> ends at once: it sets the
  message of the first check that fails, clears the loading flag and sends no request.
  It reaches its request exactly when all three checks pass, and then the request it
  sends is the \<open>register\<close> POST.
\<close>

theorem register_validation:
  "(\<not> matches email_pattern (email c) \<or> length (password c) < 8 \<or> trim (name c) = [] \<longrightarrow>
      (\<exists>w'. register c w = Finished w' \<and>
         legacyError w' =
           Some (if \<not> matches email_pattern (email c) then js ''Please enter a valid email address''
                 else if length (password c) < 8
                   then js ''Password must be at least 8 characters long''
                 else js ''Name is required'') \<and>
         \<not> legacyLoading w' \<and> requests w' = requests w)) \<and>
   ((\<exists>w'. register c w = Awaiting w') \<longleftrightarrow>
      matches email_pattern (email c) \<and> 8 \<le> length (password c) \<and> trim (name c) \<noteq> []) \<and>
   (\<forall>w'. register c w = Awaiting w' \<longrightarrow> requests w' = requests w @ [(POST, js ''register'')])"
  by (auto simp: register_def Let_def send_def setTimeout_def)

theorem register_validation_witness:
  "(\<exists>w'. register \<lparr>email = js ''bob.example.com'', password = js ''correct horse'', name = js ''Bob''\<rparr>
            sample_world = Finished w' \<and>
         legacyError w' = Some (js ''Please enter a valid email address'') \<and>
         \<not> legacyLoading w' \<and> requests w' = []) \<and>
   (\<exists>w'. register \<lparr>email = js ''bob@example.com'', password = js ''horse'', name = js ''Bob''\<rparr>
            sample_world = Finished w' \<and>
         legacyError w' = Some (js ''Password must be at least 8 characters long'') \<and>
         \<not> legacyLoading w' \<and> requests w' = []) \<and>
   (\<exists>w'. register \<lparr>email = js ''bob@example.com'', password = js ''correct horse'', name = js ''  ''\<rparr>
            sample_world = Finished w' \<and>
         legacyError w' = Some (js ''Name is required'') \<and>
         \<not> legacyLoading w' \<and> requests w' = []) \<and>
   (\<exists>w'. register \<lparr>email = js ''bob@example.com'', password = js ''correct horse'', name = js ''Bob''\<rparr>
            sample_world = Awaiting w' \<and> requests w' = [(POST, js ''register'')])"
proof -
  have m1: "\<not> matches email_pattern (js ''bob.example.com'')"
    by (simp add: email_pattern_def js_def is_js_space_def)
  have m2: "matches email_pattern (js ''bob@example.com'')"
    by (simp add: email_pattern_def js_def is_js_space_def)
  have t1: "trim (js ''  '') = []" "trim (js ''Bob'') \<noteq> []"
    by (simp_all add: trim_def js_def is_js_space_def)
  have l: "length (js ''horse'') < 8" "8 \<le> length (js ''correct horse'')"
    by (simp_all add: js_def)
  have r0: "requests sample_world = []" by (simp add: sample_world_def)
  show ?thesis
    using
      register_validation [of "\<lparr>email = js ''bob.example.com'', password = js ''correct horse'', name = js ''Bob''\<rparr>" sample_world]
      register_validation [of "\<lparr>email = js ''bob@example.com'', password = js ''horse'', name = js ''Bob''\<rparr>" sample_world]
      register_validation [of "\<lparr>email = js ''bob@example.com'', password = js ''correct horse'', name = js ''  ''\<rparr>" sample_world]
      register_validation [of "\<lparr>email = js ''bob@example.com'', password = js ''correct horse'', name = js ''Bob''\<rparr>" sample_world]
      m1 m2 t1 l r0
    by simp blast
qed

subsection \<open>Timeouts\<close>

lemma call_arms_timer:
  "call c w = Awaiting w' \<Longrightarrow> timer w' = Some (TIMEOUT_DURATION, timeout_message c)"
  by (cases c)
     (auto simp: register_def login_def resendVerification_def plain_request_def
        forgotPassword_def verifyForgotPassword_def resetPassword_def verifyTwoFactor_def
        sendTwoFactorCode_def updateProfile_def updatePassword_def getNotificationSettings_def
        updateNotificationSettings_def Let_def send_def setTimeout_def
        split: if_splits)

lemma call_settled_not_loading: "\<not> legacyLoading (call_settled c r w)"
  by (cases c; cases r)
     (simp_all add: register_settled_def login_settled_def resendVerification_settled_def
        plain_settled_def forgotPassword_settled_def verifyForgotPassword_settled_def
        resetPassword_settled_def verifyTwoFactor_settled_def sendTwoFactorCode_settled_def
        updateProfile_settled_def updatePassword_settled_def getNotificationSettings_settled_def
        updateNotificationSettings_settled_def Let_def clearTimeout_def)

lemma pending_without_timer:
  "timer w = None \<Longrightarrow> latency = None \<or> (\<exists>l. latency = Some l \<and> t < l) \<Longrightarrow>
     observe settle latency t (Awaiting w) = w"
  by (auto simp: observe_def)

text \<open>
  C6 (as amended). Every operation of the legacy facade that awaits a request arms a
  timer of 15000 ms with its own message. Seen at any time from 15000 ms on at which the
  request has not settled (it never settles, or settles later), the facade has the loading
  flag cleared and that message as its error. When the request settles after the timer
  has fired, the loading flag is still cleared. The platform facade arms no timer: with
  no timer pending, as long as the platform call of \<open>signIn\<close>, \<open>signUp\<close> or \<open>signOut\<close>
  has not settled, the loading flag stays set and no error is set. The legacy \<open>logout\<close>
  arms no timer either.
\<close>

theorem legacy_timeout:
  "(call c w = Awaiting w' \<and> TIMEOUT_DURATION \<le> t \<and>
      (latency = None \<or> (\<exists>l. latency = Some l \<and> t < l)) \<longrightarrow>
      timer w' = Some (15000, timeout_message c) \<and>
      \<not> legacyLoading (observe (call_settled c r) latency t (call c w)) \<and>
      legacyError (observe (call_settled c r) latency t (call c w)) = Some (timeout_message c)) \<and>
   (call c w = Awaiting w' \<and> TIMEOUT_DURATION \<le> l \<and> l \<le> t \<longrightarrow>
      \<not> legacyLoading (observe (call_settled c r) (Some l) t (call c w))) \<and>
   (timer w = None \<and> (latency = None \<or> (\<exists>l. latency = Some l \<and> t < l)) \<longrightarrow>
      supabaseLoading (observe (signIn_settled r1) latency t (signIn w)) \<and>
      supabaseError (observe (signIn_settled r1) latency t (signIn w)) = None \<and>
      supabaseLoading (observe (signUp_settled r2) latency t (signUp w)) \<and>
      supabaseError (observe (signUp_settled r2) latency t (signUp w)) = None \<and>
      supabaseLoading (observe (signOut_settled r3) latency t (signOut_called w)) \<and>
      supabaseError (observe (signOut_settled r3) latency t (signOut_called w)) = supabaseError w) \<and>
   timer (logout w) = timer w"
proof (intro conjI impI)
  assume a: "call c w = Awaiting w' \<and> TIMEOUT_DURATION \<le> t \<and>
      (latency = None \<or> (\<exists>l. latency = Some l \<and> t < l))"
  then have tm: "timer w' = Some (TIMEOUT_DURATION, timeout_message c)"
    using call_arms_timer by blast
  then show "timer w' = Some (15000, timeout_message c)"
    by (simp add: TIMEOUT_DURATION_def)
  have o: "observe (call_settled c r) latency t (call c w) = timer_fires w'"
    using a tm by (auto simp: observe_def)
  show "\<not> legacyLoading (observe (call_settled c r) latency t (call c w))"
    using tm by (simp add: o timer_fires_def)
  show "legacyError (observe (call_settled c r) latency t (call c w)) = Some (timeout_message c)"
    using tm by (simp add: o timer_fires_def)
next
  assume a: "call c w = Awaiting w' \<and> TIMEOUT_DURATION \<le> l \<and> l \<le> t"
  then have tm: "timer w' = Some (TIMEOUT_DURATION, timeout_message c)"
    using call_arms_timer by blast
  have "observe (call_settled c r) (Some l) t (call c w) = call_settled c r (timer_fires w')"
    using a tm by (simp add: observe_def)
  then show "\<not> legacyLoading (observe (call_settled c r) (Some l) t (call c w))"
    by (simp add: call_settled_not_loading)
next
  assume a: "timer w = None \<and> (latency = None \<or> (\<exists>l. latency = Some l \<and> t < l))"
  then have p: "observe settle latency t (Awaiting v) = v" if "timer v = None" for settle v
    using that pending_without_timer by blast
  show "supabaseLoading (observe (signIn_settled r1) latency t (signIn w))"
    using a by (simp add: signIn_def p)
  show "supabaseError (observe (signIn_settled r1) latency t (signIn w)) = None"
    using a by (simp add: signIn_def p)
  show "supabaseLoading (observe (signUp_settled r2) latency t (signUp w))"
    using a by (simp add: signUp_def p)
  show "supabaseError (observe (signUp_settled r2) latency t (signUp w)) = None"
    using a by (simp add: signUp_def p)
  show "supabaseLoading (observe (signOut_settled r3) latency t (signOut_called w))"
    using a by (simp add: signOut_called_def p)
  show "supabaseError (observe (signOut_settled r3) latency t (signOut_called w)) = supabaseError w"
    using a by (simp add: signOut_called_def p)
next
  show "timer (logout w) = timer w"
    by (simp add: logout_def send_def Let_def)
qed

theorem legacy_timeout_witness:
  "legacyError
     (observe (call_settled (Login \<lparr>login_email = js ''bob@example.com'', login_password = js ''correct horse''\<rparr>)
                 (Resolved \<lparr>reply_token = js ''tok'', reply_user = js ''{}''\<rparr>))
        (Some 20000) 15000
        (call (Login \<lparr>login_email = js ''bob@example.com'', login_password = js ''correct horse''\<rparr>)
           sample_world)) =
     Some (js ''Login request timed out. Please try again.'') \<and>
   \<not> legacyLoading
     (observe (call_settled (Login \<lparr>login_email = js ''bob@example.com'', login_password = js ''correct horse''\<rparr>)
                 (Resolved \<lparr>reply_token = js ''tok'', reply_user = js ''{}''\<rparr>))
        (Some 20000) 15000
        (call (Login \<lparr>login_email = js ''bob@example.com'', login_password = js ''correct horse''\<rparr>)
           sample_world)) \<and>
   \<not> legacyLoading
     (observe (call_settled (Login \<lparr>login_email = js ''bob@example.com'', login_password = js ''correct horse''\<rparr>)
                 (Resolved \<lparr>reply_token = js ''tok'', reply_user = js ''{}''\<rparr>))
        (Some 20000) 20000
        (call (Login \<lparr>login_email = js ''bob@example.com'', login_password = js ''correct horse''\<rparr>)
           sample_world)) \<and>
   supabaseLoading
     (observe (signIn_settled (AuthError (js ''Invalid login credentials''))) (Some 20000) 15000
        (signIn sample_world))"
proof -
  let ?c = "Login \<lparr>login_email = js ''bob@example.com'', login_password = js ''correct horse''\<rparr>"
  let ?r = "Resolved \<lparr>reply_token = js ''tok'', reply_user = js ''{}''\<rparr>"
  have t: "trim (js ''bob@example.com'') \<noteq> []" "trim (js ''correct horse'') \<noteq> []"
    by (simp_all add: trim_def js_def is_js_space_def)
  obtain w' where w': "call ?c sample_world = Awaiting w'"
    using t by (simp add: login_def Let_def)
  have none: "timer sample_world = None"
    by (simp add: sample_world_def)
  show ?thesis
    using
      legacy_timeout [where c = ?c and w = sample_world and w' = w' and t = 15000
        and latency = "Some 20000" and r = ?r and l = 20000
        and ?r1.0 = "AuthError (js ''Invalid login credentials'')"]
      legacy_timeout [where c = ?c and w = sample_world and w' = w' and t = 20000
        and latency = None and r = ?r and l = 20000]
      w' none
    by (simp add: TIMEOUT_DURATION_def)
qed

text \<open>
  C6 as stated fails for the platform facade, which arms no timer: 20000 ms after
  \<open>signIn\<close>, with the platform call still pending, the loading flag is set and there is
  no error.
\<close>

theorem platform_signIn_counterexample:
  "supabaseLoading (observe (signIn_settled (AuthData None)) None 20000 (signIn sample_world)) \<and>
   supabaseError (observe (signIn_settled (AuthData None)) None 20000 (signIn sample_world)) = None \<and>
   timer (observe (signIn_settled (AuthData None)) None 20000 (signIn sample_world)) = None"
  by (simp add: observe_def signIn_def sample_world_def)

subsection \<open>Logging out\<close>

text \<open>
  C7 (as amended). The platform facade's \<open>signOut\<close>, when the platform's sign-out
  succeeds, removes the keys \<open>token\<close> and \<open>user\<close>, clears the platform session and the
  facade's user, and the guard no longer renders the protected outlet. The sidebar's
  logout (the legacy \<open>logout\<close>, then \<open>signOut\<close>) does the same, and the guard redirects to
  the login screen. When the platform's sign-out resolves with an error or throws, the
  platform session and the platform user stay as they are, and after \<open>signOut\<close> (with
  the legacy facade not loading) and after the sidebar's logout the guard renders the
  protected outlet whenever a platform user is present; \<open>signOut\<close> removes the two keys
  when the sign-out resolves with an error and leaves the storage as it is when it throws.
  The legacy facade's \<open>logout\<close> alone removes the two keys and the legacy user and
  leaves the platform session and the platform user as they are; after it the guard
  decides on the platform facade alone, so it renders the protected outlet whenever a
  platform user is present and the platform facade is not loading.
  \<open>authService.logout\<close> sends the REST logout; it removes the two keys when that
  succeeds, throws the failure and leaves the storage unchanged when it fails, and in both
  cases leaves the platform session as it is.
\<close>

theorem logout_clears_sessions:
  "localStorage (signOut (AuthData ()) w) (js ''token'') = None \<and>
   localStorage (signOut (AuthData ()) w) (js ''user'') = None \<and>
   clientSession (signOut (AuthData ()) w) = None \<and>
   supabaseUser (signOut (AuthData ()) w) = None \<and>
   ProtectedRoute (signOut (AuthData ()) w) \<noteq> Outlet \<and>
   localStorage (handleLogout (AuthData ()) w) (js ''token'') = None \<and>
   localStorage (handleLogout (AuthData ()) w) (js ''user'') = None \<and>
   clientSession (handleLogout (AuthData ()) w) = None \<and>
   legacyUser (handleLogout (AuthData ()) w) = None \<and>
   supabaseUser (handleLogout (AuthData ()) w) = None \<and>
   ProtectedRoute (handleLogout (AuthData ()) w) = Navigate (js ''/login'') \<and>
   localStorage (logout w) (js ''token'') = None \<and>
   localStorage (logout w) (js ''user'') = None \<and>
   legacyUser (logout w) = None \<and>
   clientSession (logout w) = clientSession w \<and>
   supabaseUser (logout w) = supabaseUser w \<and>
   (\<forall>j. fst (api_get (js ''logout'') fr w) = Inr j \<longrightarrow>
      localStorage (snd (authService_logout fr w)) (js ''token'') = None \<and>
      localStorage (snd (authService_logout fr w)) (js ''user'') = None \<and>
      clientSession (snd (authService_logout fr w)) = clientSession w \<and>
      supabaseUser (snd (authService_logout fr w)) = supabaseUser w) \<and>
   (\<forall>e. fst (api_get (js ''logout'') fr w) = Inl e \<longrightarrow>
      fst (authService_logout fr w) = Inl e \<and>
      localStorage (snd (authService_logout fr w)) = localStorage w \<and>
      clientSession (snd (authService_logout fr w)) = clientSession w \<and>
      supabaseUser (snd (authService_logout fr w)) = supabaseUser w) \<and>
   requests (snd (authService_logout fr w)) = requests w @ [(GET, js ''logout'')] \<and>
   ProtectedRoute (logout w) =
     (if supabaseLoading w then Spinner
      else if supabaseUser w = None then Navigate (js ''/login'') else Outlet) \<and>
   (supabaseUser w \<noteq> None \<and> \<not> supabaseLoading w \<longrightarrow> ProtectedRoute (logout w) = Outlet) \<and>
   localStorage (signOut (AuthError m) w) (js ''token'') = None \<and>
   localStorage (signOut (AuthError m) w) (js ''user'') = None \<and>
   clientSession (signOut (AuthError m) w) = clientSession w \<and>
   supabaseUser (signOut (AuthError m) w) = supabaseUser w \<and>
   (supabaseUser w \<noteq> None \<and> \<not> legacyLoading w \<longrightarrow>
      ProtectedRoute (signOut (AuthError m) w) = Outlet) \<and>
   localStorage (signOut (AuthThrew m) w) = localStorage w \<and>
   clientSession (signOut (AuthThrew m) w) = clientSession w \<and>
   supabaseUser (signOut (AuthThrew m) w) = supabaseUser w \<and>
   supabaseError (signOut (AuthThrew m) w) = Some m \<and>
   (supabaseUser w \<noteq> None \<and> \<not> legacyLoading w \<longrightarrow>
      ProtectedRoute (signOut (AuthThrew m) w) = Outlet) \<and>
   clientSession (handleLogout (AuthError m) w) = clientSession w \<and>
   clientSession (handleLogout (AuthThrew m) w) = clientSession w \<and>
   (supabaseUser w \<noteq> None \<longrightarrow>
      ProtectedRoute (handleLogout (AuthError m) w) = Outlet \<and>
      ProtectedRoute (handleLogout (AuthThrew m) w) = Outlet)"
  by (auto simp: signOut_def signOut_settled_def handleLogout_def logout_def
        client_session_changed_def onAuthStateChange_def ProtectedRoute_def send_def
        authService_logout_def api_get_def api_request_def Let_def js_def
        split: sum.splits)

theorem logout_clears_sessions_witness:
  "ProtectedRoute signed_in_world = Outlet \<and>
   ProtectedRoute (handleLogout (AuthData ()) signed_in_world) = Navigate (js ''/login'') \<and>
   localStorage (handleLogout (AuthData ()) signed_in_world) (js ''token'') = None \<and>
   localStorage (snd (authService_logout (Responded \<lparr>status = 200, body = Some (JObj [])\<rparr>)
                        signed_in_world)) (js ''token'') = None \<and>
   fst (authService_logout (Responded \<lparr>status = 500, body = None\<rparr>) signed_in_world) =
     Inl (ApiError 500 (Some (JStr (js ''An error occurred'')))) \<and>
   localStorage (snd (authService_logout (Responded \<lparr>status = 500, body = None\<rparr>)
                        signed_in_world)) (js ''token'') = Some (js ''tok'') \<and>
   ProtectedRoute (signOut (AuthThrew (js ''Failed to fetch'')) signed_in_world) = Outlet \<and>
   ProtectedRoute (logout (signed_in_world\<lparr>legacyLoading := True\<rparr>)) = Outlet"
proof -
  have ok: "fst (api_get (js ''logout'') (Responded \<lparr>status = 200, body = Some (JObj [])\<rparr>)
               signed_in_world) = Inr (JObj [])"
    by (simp add: api_get_def api_request_def handleResponse_def response_ok_def)
  have bad: "fst (api_get (js ''logout'') (Responded \<lparr>status = 500, body = None\<rparr>)
               signed_in_world) = Inl (ApiError 500 (Some (JStr (js ''An error occurred''))))"
    by (simp add: api_get_def api_request_def handleResponse_def response_ok_def)
  have start: "ProtectedRoute signed_in_world = Outlet"
    "supabaseUser signed_in_world \<noteq> None" "\<not> supabaseLoading signed_in_world"
    "\<not> legacyLoading signed_in_world"
    "localStorage signed_in_world (js ''token'') = Some (js ''tok'')"
    by (simp_all add: ProtectedRoute_def signed_in_world_def js_def)
  show ?thesis
    using
      logout_clears_sessions [of signed_in_world
        "Responded \<lparr>status = 200, body = Some (JObj [])\<rparr>" "js ''Failed to fetch''"]
      logout_clears_sessions [of signed_in_world
        "Responded \<lparr>status = 500, body = None\<rparr>" "js ''Failed to fetch''"]
      logout_clears_sessions [of "signed_in_world\<lparr>legacyLoading := True\<rparr>"
        "Responded \<lparr>status = 500, body = None\<rparr>" "js ''Failed to fetch''"]
      ok bad start
    by simp
qed

text \<open>
  C7 as stated fails in two ways. The legacy facade's \<open>logout\<close>, called with a user
  signed in on the platform, removes the two keys but the platform session stays, and the
  guard still renders the protected outlet. And when the platform's sign-out fails, the
  sidebar's logout removes the two keys but the platform session stays and the guard
  still renders the protected outlet; so does the guard after a \<open>signOut\<close> whose platform
  call throws.
\<close>

theorem logout_counterexample:
  "localStorage (logout signed_in_world) (js ''token'') = None \<and>
   localStorage (logout signed_in_world) (js ''user'') = None \<and>
   clientSession (logout signed_in_world) =
     Some \<lparr>access_token = js ''jwt'',
           session_user = \<lparr>uid = js ''u1'', uemail = js ''bob@example.com''\<rparr>\<rparr> \<and>
   ProtectedRoute (logout signed_in_world) = Outlet \<and>
   localStorage (handleLogout (AuthError (js ''Failed to fetch'')) signed_in_world) (js ''token'') =
     None \<and>
   clientSession (handleLogout (AuthError (js ''Failed to fetch'')) signed_in_world) =
     Some \<lparr>access_token = js ''jwt'',
           session_user = \<lparr>uid = js ''u1'', uemail = js ''bob@example.com''\<rparr>\<rparr> \<and>
   ProtectedRoute (handleLogout (AuthError (js ''Failed to fetch'')) signed_in_world) = Outlet \<and>
   ProtectedRoute (signOut (AuthThrew (js ''Failed to fetch'')) signed_in_world) = Outlet"
  by (simp add: logout_def send_def ProtectedRoute_def signed_in_world_def Let_def js_def
        handleLogout_def signOut_def signOut_settled_def)

end
